theory Spec2Isabelle
  imports Main "HOL-Library.AList" "HOL-Library.Char_ord" "HOL-Library.List_Lexorder"
    "HOL-Library.Product_Lexorder" "HOL-Library.Multiset"
begin

section \<open>JSON documents and the Python operations the data manager applies to them\<close>

text \<open>
  Every collection of \<^verbatim>\<open>modules/data_manager.py\<close> is what \<^verbatim>\<open>json.load\<close> returned: nested
  dicts, lists, strings, integers, booleans and \<^verbatim>\<open>None\<close>. A dict keeps its insertion order,
  so it is an association list; \<^verbatim>\<open>d[k] = v\<close> is \<open>AList.update\<close> (the value is replaced in
  place, a new key goes to the end). Floating point numbers are not part of the model.
  Strings are lists of 8-bit characters: a character is a code point below 256.
\<close>

datatype json =
  JNull | JBool bool | JInt int | JStr string | JList "json list" | JObj "(string \<times> json) list"

datatype py_error = TypeError | AttributeError | KeyError | ValueError | OSError

definition ebind :: "py_error + 'a \<Rightarrow> ('a \<Rightarrow> py_error + 'b) \<Rightarrow> py_error + 'b" where
  "ebind m f = (case m of Inl e \<Rightarrow> Inl e | Inr v \<Rightarrow> f v)"

fun fold_err :: "('a \<Rightarrow> 's \<Rightarrow> py_error + 's) \<Rightarrow> 'a list \<Rightarrow> 's \<Rightarrow> py_error + 's" where
  "fold_err f [] s = Inr s"
| "fold_err f (x # xs) s = ebind (f x s) (fold_err f xs)"

text \<open>\<^verbatim>\<open>bool(x)\<close>: what \<^verbatim>\<open>if x\<close>, \<^verbatim>\<open>not x\<close> and \<^verbatim>\<open>x or y\<close> test.\<close>

fun truthy :: "json \<Rightarrow> bool" where
  "truthy JNull = False"
| "truthy (JBool b) = b"
| "truthy (JInt n) = (n \<noteq> 0)"
| "truthy (JStr s) = (s \<noteq> [])"
| "truthy (JList xs) = (xs \<noteq> [])"
| "truthy (JObj kvs) = (kvs \<noteq> [])"

fun hashable :: "json \<Rightarrow> bool" where
  "hashable (JList xs) = False"
| "hashable (JObj kvs) = False"
| "hashable j = True"

text \<open>Booleans are integers in Python: \<^verbatim>\<open>True == 1\<close>.\<close>

fun py_num :: "json \<Rightarrow> int option" where
  "py_num (JInt n) = Some n"
| "py_num (JBool b) = Some (if b then 1 else 0)"
| "py_num j = None"

text \<open>\<^verbatim>\<open>a == b\<close>: numbers by value, dicts regardless of the order of their keys.\<close>

fun py_eq :: "json \<Rightarrow> json \<Rightarrow> bool"
  and py_eq_list :: "json list \<Rightarrow> json list \<Rightarrow> bool"
  and py_eq_sub :: "(string \<times> json) list \<Rightarrow> (string \<times> json) list \<Rightarrow> bool" where
  "py_eq JNull b = (b = JNull)"
| "py_eq (JBool x) b = (py_num b = Some (if x then 1 else 0))"
| "py_eq (JInt n) b = (py_num b = Some n)"
| "py_eq (JStr s) b = (b = JStr s)"
| "py_eq (JList xs) b = (case b of JList ys \<Rightarrow> py_eq_list xs ys | _ \<Rightarrow> False)"
| "py_eq (JObj kvs) b =
     (case b of JObj kws \<Rightarrow> length kvs = length kws \<and> py_eq_sub kvs kws | _ \<Rightarrow> False)"
| "py_eq_list [] ys = (ys = [])"
| "py_eq_list (x # xs) ys =
     (case ys of [] \<Rightarrow> False | y # ys' \<Rightarrow> py_eq x y \<and> py_eq_list xs ys')"
| "py_eq_sub [] kws = True"
| "py_eq_sub ((k, v) # kvs) kws =
     (case map_of kws k of None \<Rightarrow> False | Some w \<Rightarrow> py_eq v w \<and> py_eq_sub kvs kws)"

text \<open>
  \<^verbatim>\<open>a <= b\<close>: numbers by value, strings and lists lexicographically (a list comparison looks
  for the first pair of elements that are not equal and compares those); every other pair
  raises \<^verbatim>\<open>TypeError\<close>.
\<close>

fun py_le :: "json \<Rightarrow> json \<Rightarrow> py_error + bool"
  and py_le_list :: "json list \<Rightarrow> json list \<Rightarrow> py_error + bool" where
  "py_le JNull b = Inl TypeError"
| "py_le (JBool x) b =
     (case py_num b of None \<Rightarrow> Inl TypeError | Some m \<Rightarrow> Inr ((if x then 1 else 0) \<le> m))"
| "py_le (JInt n) b = (case py_num b of None \<Rightarrow> Inl TypeError | Some m \<Rightarrow> Inr (n \<le> m))"
| "py_le (JStr s) b = (case b of JStr t \<Rightarrow> Inr (s \<le> t) | _ \<Rightarrow> Inl TypeError)"
| "py_le (JList xs) b = (case b of JList ys \<Rightarrow> py_le_list xs ys | _ \<Rightarrow> Inl TypeError)"
| "py_le (JObj kvs) b = Inl TypeError"
| "py_le_list [] ys = Inr True"
| "py_le_list (x # xs) ys =
     (case ys of [] \<Rightarrow> Inr False
      | y # ys' \<Rightarrow> if py_eq x y then py_le_list xs ys' else py_le x y)"

text \<open>\<^verbatim>\<open>a - b\<close> and \<^verbatim>\<open>a + 1\<close> are defined on numbers only.\<close>

definition py_sub :: "json \<Rightarrow> json \<Rightarrow> py_error + int" where
  "py_sub a b =
     (case py_num a of None \<Rightarrow> Inl TypeError
      | Some x \<Rightarrow> (case py_num b of None \<Rightarrow> Inl TypeError | Some y \<Rightarrow> Inr (x - y)))"

definition py_add1 :: "json \<Rightarrow> py_error + int" where
  "py_add1 a = (case py_num a of None \<Rightarrow> Inl TypeError | Some x \<Rightarrow> Inr (x + 1))"

text \<open>
  \<^verbatim>\<open>d.get(k, default)\<close>. The attribute is looked up first, so a receiver that is not a dict
  raises \<^verbatim>\<open>AttributeError\<close>; a list or dict as key is unhashable; the keys of a loaded
  dict are strings, so no other key is found.
\<close>

definition dict_get :: "json \<Rightarrow> json \<Rightarrow> json \<Rightarrow> py_error + json" where
  "dict_get d k dflt =
     (case d of
        JObj kvs \<Rightarrow>
          (case k of
             JStr s \<Rightarrow> Inr (case map_of kvs s of None \<Rightarrow> dflt | Some v \<Rightarrow> v)
           | JList xs \<Rightarrow> Inl TypeError
           | JObj kws \<Rightarrow> Inl TypeError
           | _ \<Rightarrow> Inr dflt)
      | _ \<Rightarrow> Inl AttributeError)"

text \<open>The position of the first occurrence of \<open>k\<close> in \<open>s\<close>: \<^verbatim>\<open>s.find(k)\<close>.\<close>

fun str_find :: "string \<Rightarrow> string \<Rightarrow> nat option" where
  "str_find k [] = (if k = [] then Some 0 else None)"
| "str_find k (c # cs) =
     (if take (length k) (c # cs) = k then Some 0 else map_option Suc (str_find k cs))"

text \<open>
  \<^verbatim>\<open>k in x\<close> for a string \<open>k\<close>: a key of a dict, an element of a list, a substring of a
  string.
\<close>

definition py_contains_str :: "string \<Rightarrow> json \<Rightarrow> py_error + bool" where
  "py_contains_str k x =
     (case x of
        JObj kvs \<Rightarrow> Inr (map_of kvs k \<noteq> None)
      | JList xs \<Rightarrow> Inr (JStr k \<in> set xs)
      | JStr s \<Rightarrow> Inr (str_find k s \<noteq> None)
      | _ \<Rightarrow> Inl TypeError)"

text \<open>\<^verbatim>\<open>x[k]\<close>, \<^verbatim>\<open>x[k] = v\<close> and \<^verbatim>\<open>del x[k]\<close> for a string \<open>k\<close>.\<close>

definition py_getitem :: "json \<Rightarrow> string \<Rightarrow> py_error + json" where
  "py_getitem x k =
     (case x of
        JObj kvs \<Rightarrow> (case map_of kvs k of None \<Rightarrow> Inl KeyError | Some v \<Rightarrow> Inr v)
      | _ \<Rightarrow> Inl TypeError)"

definition py_setitem :: "json \<Rightarrow> string \<Rightarrow> json \<Rightarrow> py_error + json" where
  "py_setitem x k v =
     (case x of JObj kvs \<Rightarrow> Inr (JObj (AList.update k v kvs)) | _ \<Rightarrow> Inl TypeError)"

definition py_delitem :: "json \<Rightarrow> string \<Rightarrow> py_error + json" where
  "py_delitem x k =
     (case x of
        JObj kvs \<Rightarrow>
          (case map_of kvs k of None \<Rightarrow> Inl KeyError | Some v \<Rightarrow> Inr (JObj (AList.delete k kvs)))
      | _ \<Rightarrow> Inl TypeError)"

text \<open>\<^verbatim>\<open>for v in x\<close>: the elements of a list, the keys of a dict, the characters of a string.\<close>

definition py_iter :: "json \<Rightarrow> py_error + json list" where
  "py_iter x =
     (case x of
        JList xs \<Rightarrow> Inr xs
      | JObj kvs \<Rightarrow> Inr (map (\<lambda>kv. JStr (fst kv)) kvs)
      | JStr s \<Rightarrow> Inr (map (\<lambda>c. JStr [c]) s)
      | _ \<Rightarrow> Inl TypeError)"

subsection \<open>Strings\<close>

text \<open>
  \<^verbatim>\<open>s.strip()\<close> removes from both ends of \<open>s\<close> the characters that \<^verbatim>\<open>str.isspace\<close> accepts.
  Which characters those are is a parameter, \<open>isspace\<close>, so that nothing proved about
  \<open>strip\<close> depends on the character set. \<open>latin1_isspace\<close> is Python's predicate on the
  code points below 256: tab to carriage return, the separators 28 to 31, the space, the next
  line control 133 and the no-break space 160.
\<close>

definition strip :: "(char \<Rightarrow> bool) \<Rightarrow> string \<Rightarrow> string" where
  "strip isspace s = rev (dropWhile isspace (rev (dropWhile isspace s)))"

definition latin1_isspace :: "char \<Rightarrow> bool" where
  "latin1_isspace c =
     (let n = (of_char c :: nat) in
      (9 \<le> n \<and> n \<le> 13) \<or> (28 \<le> n \<and> n \<le> 32) \<or> n = 133 \<or> n = 160)"

fun str_of_nat :: "nat \<Rightarrow> string" where
  "str_of_nat n =
     (if n < 10 then [char_of (48 + n)]
      else str_of_nat (n div 10) @ [char_of (48 + n mod 10)])"

declare str_of_nat.simps [simp del]

definition str_of_int :: "int \<Rightarrow> string" where
  "str_of_int i = (if i < 0 then CHR ''-'' # str_of_nat (nat (- i)) else str_of_nat (nat i))"

text \<open>
  \<^verbatim>\<open>str(x)\<close>, which is also what an f-string inserts. The text Python prints for a list or
  a dict is a parameter, \<open>repr\<close>.
\<close>

fun py_str :: "(json \<Rightarrow> string) \<Rightarrow> json \<Rightarrow> string" where
  "py_str repr (JStr s) = s"
| "py_str repr (JInt n) = str_of_int n"
| "py_str repr (JBool b) = (if b then ''True'' else ''False'')"
| "py_str repr JNull = ''None''"
| "py_str repr j = repr j"

section \<open>Loading a single JSON document: \<^verbatim>\<open>DataManager._load_json\<close>\<close>

text \<open>
  The file system maps a path to the text of the file there. \<^verbatim>\<open>json.load\<close> is the
  parameter \<open>loads\<close>; it raises on text that is not JSON. A default of \<^verbatim>\<open>None\<close> is \<open>JNull\<close>.
\<close>

type_synonym filesystem = "string \<rightharpoonup> string"

definition load_json ::
  "(string \<Rightarrow> py_error + json) \<Rightarrow> filesystem \<Rightarrow> string \<Rightarrow> json \<Rightarrow> json" where
  "load_json loads fs filepath dflt =
     (case fs filepath of
        None \<Rightarrow> (if truthy dflt then dflt else JObj [])
      | Some text \<Rightarrow>
          (case loads text of
             Inr doc \<Rightarrow> doc
           | Inl e \<Rightarrow> (if truthy dflt then dflt else JObj [])))"

section \<open>Loading a directory of JSON documents\<close>

text \<open>
  What a loader sees of a directory: it is missing, it is not a directory, or
  \<^verbatim>\<open>os.listdir\<close> returns its file names, in some order; each name comes with the outcome of
  opening the file and parsing it with \<^verbatim>\<open>json.load\<close>. What a loader prints is returned
  as a list of diagnostics.
\<close>

datatype directory = Missing | NotADirectory | Listing "(string \<times> (py_error + json)) list"

datatype diagnostic = NotFound | LoadError string | NoUsableName string

definition ends_with :: "string \<Rightarrow> string \<Rightarrow> bool" where
  "ends_with suffix s = (length suffix \<le> length s \<and> drop (length s - length suffix) s = suffix)"

definition load_data_file ::
  "string \<times> (py_error + json) \<Rightarrow> json list \<times> diagnostic list \<Rightarrow> json list \<times> diagnostic list" where
  "load_data_file entry acc =
     (if ends_with ''.json'' (fst entry) then
        (case snd entry of
           Inr doc \<Rightarrow> (fst acc @ [doc], snd acc)
         | Inl e \<Rightarrow> (fst acc, snd acc @ [LoadError (fst entry)]))
      else acc)"

definition load_json_dir :: "directory \<Rightarrow> py_error + json list \<times> diagnostic list" where
  "load_json_dir directory =
     (case directory of
        Missing \<Rightarrow> Inr ([], [NotFound])
      | NotADirectory \<Rightarrow> Inl OSError
      | Listing entries \<Rightarrow> Inr (fold load_data_file entries ([], [])))"

subsection \<open>\<^verbatim>\<open>ItemDatabase._load_items_from_dir\<close>\<close>

text \<open>
  \<open>choices\<close> maps a name to the item object. The item object is changed (\<open>name\<close>,
  \<open>names\<close>) before it is stored and never afterwards, so storing the value is storing the
  reference. A document that is not a dict has no \<^verbatim>\<open>get\<close>: the exception is caught and
  the file is skipped.
\<close>

definition index_name ::
  "(char \<Rightarrow> bool) \<Rightarrow> (json \<Rightarrow> string) \<Rightarrow> json \<Rightarrow> string \<times> json \<Rightarrow> (string \<times> json) list \<Rightarrow> (string \<times> json) list" where
  "index_name isspace repr item_object entry choices =
     (if truthy (snd entry)
      then AList.update (strip isspace (py_str repr (snd entry))) item_object choices
      else choices)"

definition load_item_file ::
  "(char \<Rightarrow> bool) \<Rightarrow> (json \<Rightarrow> string) \<Rightarrow> string \<times> (py_error + json) \<Rightarrow>
   (string \<times> json) list \<times> diagnostic list \<Rightarrow> (string \<times> json) list \<times> diagnostic list" where
  "load_item_file isspace repr entry acc =
     (if ends_with ''.json'' (fst entry) then
        (case snd entry of
           Inl e \<Rightarrow> (fst acc, snd acc @ [LoadError (fst entry)])
         | Inr (JObj fields) \<Rightarrow>
             (case map_of fields ''name'' of
                Some (JObj name_obj) \<Rightarrow>
                  (let fields1 =
                         (case map_of name_obj ''en'' of
                            Some en \<Rightarrow> AList.update ''name'' (JStr (strip isspace (py_str repr en))) fields
                          | None \<Rightarrow> fields);
                       item_object = JObj (AList.update ''names'' (JObj name_obj) fields1)
                   in (fold (index_name isspace repr item_object) name_obj (fst acc), snd acc))
              | Some (JStr name) \<Rightarrow>
                  (let item_name = strip isspace name;
                       fields1 = AList.update ''name'' (JStr item_name) fields;
                       item_object = JObj (AList.update ''names'' (JObj [(''en'', JStr item_name)]) fields1)
                   in (AList.update item_name item_object (fst acc), snd acc))
              | _ \<Rightarrow> (fst acc, snd acc @ [NoUsableName (fst entry)]))
         | Inr doc \<Rightarrow> (fst acc, snd acc @ [LoadError (fst entry)]))
      else acc)"

definition load_items_from_dir ::
  "(char \<Rightarrow> bool) \<Rightarrow> (json \<Rightarrow> string) \<Rightarrow> directory \<Rightarrow> py_error + (string \<times> json) list \<times> diagnostic list" where
  "load_items_from_dir isspace repr directory =
     (case directory of
        Missing \<Rightarrow> Inr ([], [NotFound])
      | NotADirectory \<Rightarrow> Inl OSError
      | Listing entries \<Rightarrow> Inr (fold (load_item_file isspace repr) entries ([], [])))"

section \<open>The data manager\<close>

text \<open>
  The state of a \<^verbatim>\<open>DataManager\<close>. \<open>items\<close> is the name index of the item database. The
  project document is whatever \<^verbatim>\<open>_load_json\<close> returned. The keys of \<open>id_to_item_map\<close> are
  item ids, any hashable value: a Python dict finds a key by \<^verbatim>\<open>==\<close>.
\<close>

record data_manager =
  items :: "(string \<times> json) list"
  hideout_data :: "json list"
  project_data :: json
  quest_data :: "json list"
  user_progress :: json
  id_to_item_map :: "(json \<times> json) list"

fun pydict_get :: "(json \<times> 'v) list \<Rightarrow> json \<Rightarrow> 'v option" where
  "pydict_get [] k = None"
| "pydict_get (kv # kvs) k = (if py_eq (fst kv) k then Some (snd kv) else pydict_get kvs k)"

fun pydict_set :: "json \<Rightarrow> 'v \<Rightarrow> (json \<times> 'v) list \<Rightarrow> (json \<times> 'v) list" where
  "pydict_set k v [] = [(k, v)]"
| "pydict_set k v (kv # kvs) =
     (if py_eq (fst kv) k then (fst kv, v) # kvs else kv # pydict_set k v kvs)"

text \<open>The loop of \<^verbatim>\<open>__init__\<close> that fills \<open>id_to_item_map\<close> from \<^verbatim>\<open>items.values()\<close>.\<close>

definition map_item_id :: "json \<Rightarrow> (json \<times> json) list \<Rightarrow> py_error + (json \<times> json) list" where
  "map_item_id item m =
     ebind (dict_get item (JStr ''id'') JNull) (\<lambda>i.
       if truthy i then
         ebind (py_getitem item ''id'') (\<lambda>k.
           if hashable k then Inr (pydict_set k item m) else Inl TypeError)
       else Inr m)"

definition build_id_to_item_map :: "(string \<times> json) list \<Rightarrow> py_error + (json \<times> json) list" where
  "build_id_to_item_map its = fold_err map_item_id (map snd its) []"

definition get_item_by_name :: "data_manager \<Rightarrow> string \<Rightarrow> json" where
  "get_item_by_name dm name = (case map_of (items dm) name of None \<Rightarrow> JNull | Some item \<Rightarrow> item)"

subsection \<open>\<^verbatim>\<open>save_user_progress\<close>\<close>

text \<open>
  \<^verbatim>\<open>json.dump(..., indent=4)\<close> is the parameter \<open>dumps\<close>. What can go wrong while saving is
  a parameter too: a call of the sequence raises (\<^verbatim>\<open>open\<close>; the write, \<^verbatim>\<open>flush\<close> or the
  close, after \<open>n\<close> characters have reached the file; \<^verbatim>\<open>os.fsync\<close>; \<^verbatim>\<open>os.replace\<close>), or the
  process is interrupted and no handler runs. \<^verbatim>\<open>os.replace\<close> is atomic. \<open>remove_ok\<close> says
  whether the \<^verbatim>\<open>os.remove\<close> of the handler succeeds; the handler ignores its failure.
\<close>

datatype fault =
  NoFault | OpenRaises | WriteRaises nat | SyncRaises | ReplaceRaises
  | InterruptedInWrite nat | InterruptedBeforeReplace

definition cleanup_temp :: "bool \<Rightarrow> string \<Rightarrow> filesystem \<Rightarrow> filesystem" where
  "cleanup_temp remove_ok temp_file fs =
     (if fs temp_file \<noteq> None then (if remove_ok then fs(temp_file := None) else fs) else fs)"

definition save_user_progress ::
  "(json \<Rightarrow> string) \<Rightarrow> string \<Rightarrow> fault \<Rightarrow> bool \<Rightarrow> json \<Rightarrow> filesystem \<Rightarrow> filesystem" where
  "save_user_progress dumps progress_file flt remove_ok progress fs =
     (let temp_file = progress_file @ ''.tmp''; text = dumps progress in
      case flt of
        OpenRaises \<Rightarrow> cleanup_temp remove_ok temp_file fs
      | WriteRaises n \<Rightarrow> cleanup_temp remove_ok temp_file (fs(temp_file \<mapsto> take n text))
      | SyncRaises \<Rightarrow> cleanup_temp remove_ok temp_file (fs(temp_file \<mapsto> text))
      | ReplaceRaises \<Rightarrow> cleanup_temp remove_ok temp_file (fs(temp_file \<mapsto> text))
      | InterruptedInWrite n \<Rightarrow> fs(temp_file \<mapsto> take n text)
      | InterruptedBeforeReplace \<Rightarrow> fs(temp_file \<mapsto> text)
      | NoFault \<Rightarrow> (fs(temp_file := None))(progress_file \<mapsto> text))"

definition raises :: "fault \<Rightarrow> bool" where
  "raises flt =
     (case flt of OpenRaises \<Rightarrow> True | WriteRaises n \<Rightarrow> True | SyncRaises \<Rightarrow> True
      | ReplaceRaises \<Rightarrow> True | _ \<Rightarrow> False)"

subsection \<open>Item notes\<close>

text \<open>
  A query returns its value together with the progress document it leaves behind.
  \<^verbatim>\<open>set_item_note\<close> ends with a save, so it also returns the file system.
\<close>

definition get_item_note :: "json \<Rightarrow> string \<Rightarrow> py_error + json \<times> json" where
  "get_item_note progress item_id =
     ebind (dict_get progress (JStr ''item_notes'') (JObj [])) (\<lambda>notes.
     ebind (dict_get notes (JStr item_id) (JStr [])) (\<lambda>note. Inr (note, progress)))"

definition set_item_note ::
  "(char \<Rightarrow> bool) \<Rightarrow> (json \<Rightarrow> string) \<Rightarrow> string \<Rightarrow> fault \<Rightarrow> bool \<Rightarrow> json \<Rightarrow> filesystem \<Rightarrow> string \<Rightarrow> string \<Rightarrow>
   py_error + json \<times> filesystem" where
  "set_item_note isspace dumps progress_file flt remove_ok progress fs item_id note =
     ebind (py_contains_str ''item_notes'' progress) (\<lambda>present.
     ebind (if present then Inr progress else py_setitem progress ''item_notes'' (JObj [])) (\<lambda>p1.
     ebind (py_getitem p1 ''item_notes'') (\<lambda>notes.
     ebind
       (if note \<noteq> [] \<and> strip isspace note \<noteq> [] then py_setitem notes item_id (JStr (strip isspace note))
        else ebind (py_contains_str item_id notes) (\<lambda>stored.
               if stored then py_delitem notes item_id else Inr notes)) (\<lambda>notes'.
     ebind (py_setitem p1 ''item_notes'' notes') (\<lambda>p2.
       Inr (p2, save_user_progress dumps progress_file flt remove_ok p2 fs))))))"

subsection \<open>\<^verbatim>\<open>get_localized_name\<close>\<close>

definition is_lower :: "char \<Rightarrow> bool" where
  "is_lower c = (let n = (of_char c :: nat) in 97 \<le> n \<and> n \<le> 122)"

definition is_upper :: "char \<Rightarrow> bool" where
  "is_upper c = (let n = (of_char c :: nat) in 65 \<le> n \<and> n \<le> 90)"

definition to_upper :: "char \<Rightarrow> char" where
  "to_upper c = (if is_lower c then char_of ((of_char c :: nat) - 32) else c)"

definition to_lower :: "char \<Rightarrow> char" where
  "to_lower c = (if is_upper c then char_of ((of_char c :: nat) + 32) else c)"

text \<open>\<^verbatim>\<open>str.title\<close> on ASCII text, where the cased characters are the letters a to z and
  A to Z: a letter that follows a letter is lowered, any other letter is raised.\<close>

fun title_from :: "bool \<Rightarrow> string \<Rightarrow> string" where
  "title_from previous_is_cased [] = []"
| "title_from previous_is_cased (c # cs) =
     (if is_lower c then (if previous_is_cased then c else to_upper c) # title_from True cs
      else if is_upper c then (if previous_is_cased then to_lower c else c) # title_from True cs
      else c # title_from False cs)"

definition title :: "string \<Rightarrow> string" where
  "title s = title_from False s"

definition replace_char :: "char \<Rightarrow> char \<Rightarrow> string \<Rightarrow> string" where
  "replace_char old new s = map (\<lambda>c. if c = old then new else c) s"

definition get_localized_name :: "data_manager \<Rightarrow> json \<Rightarrow> string \<Rightarrow> py_error + json" where
  "get_localized_name dm item_identifier lang_code =
     (let item =
            (case item_identifier of
               JObj kvs \<Rightarrow> item_identifier
             | JStr s \<Rightarrow>
                 (case pydict_get (id_to_item_map dm) item_identifier of
                    None \<Rightarrow> JNull | Some it \<Rightarrow> it)
             | _ \<Rightarrow> JNull)
      in
      if \<not> truthy item then
        (case item_identifier of
           JStr s \<Rightarrow> Inr (JStr (title (replace_char CHR ''_'' CHR '' '' s)))
         | _ \<Rightarrow> Inr (JStr ''Unknown''))
      else
        ebind (dict_get item (JStr ''names'') (JObj [])) (\<lambda>names.
        ebind (py_contains_str lang_code names) (\<lambda>present.
          if present then py_getitem names lang_code
          else dict_get item (JStr ''name'') (JStr ''Unknown''))))"

subsection \<open>\<^verbatim>\<open>find_hideout_requirements\<close>\<close>

text \<open>
  The three nested loops, innermost first. A result is a label and its class, \<open>next\<close> or
  \<open>future\<close>.
\<close>

definition hideout_requirement ::
  "(json \<Rightarrow> string) \<Rightarrow> json \<Rightarrow> json \<Rightarrow> json \<Rightarrow> json \<Rightarrow> json \<Rightarrow> string \<Rightarrow> json \<Rightarrow>
   (string \<times> string) list \<Rightarrow> py_error + (string \<times> string) list" where
  "hideout_requirement repr tid h_inv sid sname lvl req_type req results =
     ebind (dict_get req (JStr ''itemId'') JNull) (\<lambda>item_id.
       if py_eq item_id tid then
         ebind (dict_get req (JStr ''quantity'') (JInt 0)) (\<lambda>needed.
         ebind (dict_get h_inv sid (JObj [])) (\<lambda>by_level.
         ebind (dict_get by_level (JStr (py_str repr lvl)) (JObj [])) (\<lambda>by_item.
         ebind (dict_get by_item item_id (JInt 0)) (\<lambda>owned.
         ebind (py_sub needed owned) (\<lambda>rem.
           if rem > 0 then
             Inr (results @
               [(py_str repr sname @ '' (Lvl '' @ py_str repr lvl @ ''): x'' @ str_of_int rem,
                 req_type)])
           else Inr results)))))
       else Inr results)"

definition hideout_level ::
  "(json \<Rightarrow> string) \<Rightarrow> json \<Rightarrow> json \<Rightarrow> json \<Rightarrow> json \<Rightarrow> json \<Rightarrow> json \<Rightarrow>
   (string \<times> string) list \<Rightarrow> py_error + (string \<times> string) list" where
  "hideout_level repr tid h_inv sid sname cur_lvl lvl_info results =
     ebind (dict_get lvl_info (JStr ''level'') (JInt 0)) (\<lambda>lvl.
     ebind (py_le lvl cur_lvl) (\<lambda>reached.
       if reached then Inr results
       else
         ebind (py_add1 cur_lvl) (\<lambda>following.
         ebind (dict_get lvl_info (JStr ''requirementItemIds'') (JList [])) (\<lambda>reqs.
         ebind (py_iter reqs) (\<lambda>rs.
           fold_err
             (hideout_requirement repr tid h_inv sid sname lvl
                (if py_eq lvl (JInt following) then ''next'' else ''future''))
             rs results)))))"

definition hideout_station ::
  "(json \<Rightarrow> string) \<Rightarrow> json \<Rightarrow> json \<Rightarrow> json \<Rightarrow> json \<Rightarrow>
   (string \<times> string) list \<Rightarrow> py_error + (string \<times> string) list" where
  "hideout_station repr tid progress h_inv station results =
     ebind (dict_get station (JStr ''id'') JNull) (\<lambda>sid.
     ebind (dict_get station (JStr ''name'') JNull) (\<lambda>sname.
     ebind (dict_get progress sid (JInt 0)) (\<lambda>cur_lvl.
     ebind (dict_get station (JStr ''levels'') (JList [])) (\<lambda>levels.
     ebind (py_iter levels) (\<lambda>ls.
       fold_err (hideout_level repr tid h_inv sid sname cur_lvl) ls results)))))"

definition find_hideout_requirements ::
  "(json \<Rightarrow> string) \<Rightarrow> data_manager \<Rightarrow> string \<Rightarrow> py_error + (string \<times> string) list" where
  "find_hideout_requirements repr dm item_name =
     (let target_item = get_item_by_name dm item_name in
      if \<not> truthy target_item then Inr []
      else
        ebind (py_contains_str ''id'' target_item) (\<lambda>has_id.
          if \<not> has_id then Inr []
          else
            ebind (py_getitem target_item ''id'') (\<lambda>tid.
            ebind (dict_get (user_progress dm) (JStr ''hideout_inventory'') (JObj [])) (\<lambda>h_inv.
              fold_err (hideout_station repr tid (user_progress dm) h_inv)
                (hideout_data dm) []))))"

subsection \<open>\<^verbatim>\<open>find_project_requirements\<close>\<close>

text \<open>\<^verbatim>\<open>s.replace(old, new)\<close> for a non-empty \<open>old\<close>: every occurrence, from the left,
  without overlap.\<close>

function str_replace :: "string \<Rightarrow> string \<Rightarrow> string \<Rightarrow> string" where
  "str_replace old new [] = []"
| "str_replace old new (c # cs) =
     (if old \<noteq> [] \<and> take (length old) (c # cs) = old
      then new @ str_replace old new (drop (length old - 1) cs)
      else c # str_replace old new cs)"
  by pat_completeness auto
termination
  by (relation "measure (\<lambda>(old, new, s). length s)") auto

text \<open>The display name: a name that contains \<open>Project\<close> loses every occurrence of it and
  is stripped. Only a string has \<^verbatim>\<open>replace\<close>.\<close>

definition display_name :: "(char \<Rightarrow> bool) \<Rightarrow> json \<Rightarrow> py_error + json" where
  "display_name isspace name =
     ebind (py_contains_str ''Project'' name) (\<lambda>present.
       if present then
         (case name of
            JStr s \<Rightarrow> Inr (JStr (strip isspace (str_replace ''Project'' [] s)))
          | _ \<Rightarrow> Inl AttributeError)
       else Inr name)"

definition project_requirement ::
  "(json \<Rightarrow> string) \<Rightarrow> json \<Rightarrow> json \<Rightarrow> json \<Rightarrow> json \<Rightarrow> string \<Rightarrow> json \<Rightarrow>
   (string \<times> string) list \<Rightarrow> py_error + (string \<times> string) list" where
  "project_requirement repr tid inventory pname pnum req_type req results =
     ebind (dict_get req (JStr ''itemId'') JNull) (\<lambda>item_id.
       if py_eq item_id tid then
         ebind (dict_get req (JStr ''quantity'') (JInt 0)) (\<lambda>needed.
         ebind (dict_get inventory (JStr (py_str repr pnum)) (JObj [])) (\<lambda>by_item.
         ebind (dict_get by_item item_id (JInt 0)) (\<lambda>owned.
         ebind (py_sub needed owned) (\<lambda>rem.
           if rem > 0 then
             Inr (results @
               [(py_str repr pname @ '' (Ph'' @ py_str repr pnum @ ''): x'' @ str_of_int rem,
                 req_type)])
           else Inr results))))
       else Inr results)"

definition project_phase ::
  "(json \<Rightarrow> string) \<Rightarrow> json \<Rightarrow> json \<Rightarrow> json \<Rightarrow> json \<Rightarrow> json \<Rightarrow>
   (string \<times> string) list \<Rightarrow> py_error + (string \<times> string) list" where
  "project_phase repr tid inventory pname comp_phase phase results =
     ebind (dict_get phase (JStr ''phase'') (JInt 0)) (\<lambda>pnum.
     ebind (py_le pnum comp_phase) (\<lambda>reached.
       if reached then Inr results
       else
         ebind (py_add1 comp_phase) (\<lambda>following.
         ebind (dict_get phase (JStr ''requirementItemIds'') (JList [])) (\<lambda>reqs.
         ebind (py_iter reqs) (\<lambda>rs.
           fold_err
             (project_requirement repr tid inventory pname pnum
                (if py_eq pnum (JInt following) then ''next'' else ''future''))
             rs results)))))"

definition project_entry ::
  "(char \<Rightarrow> bool) \<Rightarrow> (json \<Rightarrow> string) \<Rightarrow> json \<Rightarrow> json \<Rightarrow> json \<Rightarrow>
   (string \<times> string) list \<Rightarrow> py_error + (string \<times> string) list" where
  "project_entry isspace repr tid p_prog proj results =
     ebind (dict_get proj (JStr ''id'') JNull) (\<lambda>pid.
     ebind (dict_get proj (JStr ''name'') JNull) (\<lambda>name.
     ebind (display_name isspace name) (\<lambda>pname.
     ebind (dict_get p_prog pid
              (JObj [(''completed_phase'', JInt 0), (''inventory'', JObj [])])) (\<lambda>prog.
     ebind (dict_get prog (JStr ''completed_phase'') (JInt 0)) (\<lambda>comp_phase.
     ebind (dict_get prog (JStr ''inventory'') (JObj [])) (\<lambda>inventory.
     ebind (dict_get proj (JStr ''phases'') (JList [])) (\<lambda>phases.
     ebind (py_iter phases) (\<lambda>ps.
       fold_err (project_phase repr tid inventory pname comp_phase) ps results))))))))"

definition find_project_requirements ::
  "(char \<Rightarrow> bool) \<Rightarrow> (json \<Rightarrow> string) \<Rightarrow> data_manager \<Rightarrow> string \<Rightarrow> py_error + (string \<times> string) list" where
  "find_project_requirements isspace repr dm item_name =
     (let target_item = get_item_by_name dm item_name in
      if \<not> truthy target_item then Inr []
      else
        ebind (py_contains_str ''id'' target_item) (\<lambda>has_id.
          if \<not> has_id then Inr []
          else
            ebind (py_getitem target_item ''id'') (\<lambda>tid.
            ebind (dict_get (user_progress dm) (JStr ''projects'') (JObj [])) (\<lambda>p_prog.
            ebind (py_iter (project_data dm)) (\<lambda>projects.
              fold_err (project_entry isspace repr tid p_prog) projects [])))))"

fun map_err :: "('a \<Rightarrow> py_error + 'b) \<Rightarrow> 'a list \<Rightarrow> py_error + 'b list" where
  "map_err f [] = Inr []"
| "map_err f (x # xs) = ebind (f x) (\<lambda>y. ebind (map_err f xs) (\<lambda>ys. Inr (y # ys)))"

definition localize_name :: "(string \<times> json) list \<Rightarrow> (string \<times> json) list" where
  "localize_name info =
     (case map_of info ''name'' of
        Some (JObj names) \<Rightarrow>
          (case map_of names ''en'' of Some en \<Rightarrow> AList.update ''name'' en info | None \<Rightarrow> info)
      | _ \<Rightarrow> info)"

text \<open>
  The loop of \<^verbatim>\<open>__init__\<close> over the project document: the name of a project and of each of
  its phases becomes its \<open>en\<close> entry when it is a table that has one. A project without a
  name passes unchanged.
\<close>

definition init_named :: "json \<Rightarrow> py_error + json" where
  "init_named x = (case x of JObj kvs \<Rightarrow> Inr (JObj (localize_name kvs)) | _ \<Rightarrow> Inl AttributeError)"

definition init_project :: "json \<Rightarrow> py_error + json" where
  "init_project project =
     ebind (init_named project) (\<lambda>p.
     ebind (dict_get p (JStr ''phases'') (JList [])) (\<lambda>phases.
     ebind (py_iter phases) (\<lambda>ps.
     ebind (map_err init_named ps) (\<lambda>ps'.
       (case phases of
          JList xs \<Rightarrow>
            ebind (py_contains_str ''phases'' p) (\<lambda>present.
              if present then py_setitem p ''phases'' (JList ps') else Inr p)
        | _ \<Rightarrow> Inr p)))))"

subsection \<open>\<^verbatim>\<open>get_filtered_quests\<close>\<close>

text \<open>\<^verbatim>\<open>x in c\<close>, \<^verbatim>\<open>c.index(x)\<close> and \<^verbatim>\<open>len(c)\<close> for the custom order \<open>c\<close>.\<close>

definition py_contains :: "json \<Rightarrow> json \<Rightarrow> py_error + bool" where
  "py_contains x c =
     (case c of
        JList xs \<Rightarrow> Inr (list_ex (\<lambda>y. py_eq y x) xs)
      | JObj kvs \<Rightarrow>
          (case x of
             JStr s \<Rightarrow> Inr (map_of kvs s \<noteq> None)
           | JList xs \<Rightarrow> Inl TypeError
           | JObj kws \<Rightarrow> Inl TypeError
           | _ \<Rightarrow> Inr False)
      | JStr s \<Rightarrow> (case x of JStr k \<Rightarrow> Inr (str_find k s \<noteq> None) | _ \<Rightarrow> Inl TypeError)
      | _ \<Rightarrow> Inl TypeError)"

fun list_index :: "json list \<Rightarrow> json \<Rightarrow> nat option" where
  "list_index [] x = None"
| "list_index (y # ys) x = (if py_eq y x then Some 0 else map_option Suc (list_index ys x))"

definition py_index :: "json \<Rightarrow> json \<Rightarrow> py_error + nat" where
  "py_index c x =
     (case c of
        JList xs \<Rightarrow> (case list_index xs x of None \<Rightarrow> Inl ValueError | Some i \<Rightarrow> Inr i)
      | JStr s \<Rightarrow>
          (case x of
             JStr k \<Rightarrow> (case str_find k s of None \<Rightarrow> Inl ValueError | Some i \<Rightarrow> Inr i)
           | _ \<Rightarrow> Inl TypeError)
      | _ \<Rightarrow> Inl AttributeError)"

definition py_len :: "json \<Rightarrow> py_error + nat" where
  "py_len c =
     (case c of
        JList xs \<Rightarrow> Inr (length xs)
      | JObj kvs \<Rightarrow> Inr (length kvs)
      | JStr s \<Rightarrow> Inr (length s)
      | _ \<Rightarrow> Inl TypeError)"

text \<open>
  \<^verbatim>\<open>sorted(xs, key=f)\<close> calls \<open>f\<close> on every element, in order, and then sorts stably by the
  keys. The result of a stable sort is determined by the keys, so it is the result of the
  stable insertion sort \<open>sort_key\<close>.
\<close>

definition py_sorted :: "('a \<Rightarrow> py_error + 'k::linorder) \<Rightarrow> 'a list \<Rightarrow> py_error + 'a list" where
  "py_sorted f xs = ebind (map_err f xs) (\<lambda>ks. Inr (map snd (sort_key fst (zip ks xs))))"

fun filter_err :: "('a \<Rightarrow> py_error + bool) \<Rightarrow> 'a list \<Rightarrow> py_error + 'a list" where
  "filter_err p [] = Inr []"
| "filter_err p (x # xs) =
     ebind (p x) (\<lambda>b. ebind (filter_err p xs) (\<lambda>ys. Inr (if b then x # ys else ys)))"

text \<open>The body of the loop over an objective list, and the body of the loop over the quests.\<close>

definition flatten_objective :: "json \<Rightarrow> json list \<Rightarrow> json list" where
  "flatten_objective obj flat =
     (case obj of
        JObj kvs \<Rightarrow> (case map_of kvs ''en'' of Some en \<Rightarrow> flat @ [en] | None \<Rightarrow> flat)
      | JStr s \<Rightarrow> flat @ [obj]
      | _ \<Rightarrow> flat)"

definition quest_info :: "json \<Rightarrow> json \<Rightarrow> json list \<Rightarrow> py_error + json list" where
  "quest_info progress quest all_quest_info =
     ebind (dict_get quest (JStr ''id'') JNull) (\<lambda>q_id.
       if \<not> truthy q_id then Inr all_quest_info
       else
         (case quest of
            JObj copy \<Rightarrow>
              (let info = localize_name copy in
               ebind (py_iter (case map_of info ''objectives'' of None \<Rightarrow> JList [] | Some v \<Rightarrow> v))
                 (\<lambda>original.
               ebind (py_getitem progress ''quests'') (\<lambda>quests.
               ebind (dict_get quests q_id (JObj [])) (\<lambda>entry.
               ebind (dict_get entry (JStr ''quest_completed'') (JBool False)) (\<lambda>is_completed.
               ebind (dict_get entry (JStr ''is_tracked'') (JBool False)) (\<lambda>is_tracked.
               ebind (dict_get entry (JStr ''objectives_completed'') (JList []))
                 (\<lambda>objectives_completed.
                 Inr (all_quest_info @
                   [JObj (AList.update ''objectives_completed'' objectives_completed
                     (AList.update ''is_tracked'' is_tracked
                       (AList.update ''is_completed'' is_completed
                         (AList.update ''objectives''
                            (JList (fold flatten_objective original [])) info))))]))))))))
          | _ \<Rightarrow> Inl AttributeError))"

text \<open>
  The rank of a quest in the custom order: its first position there when it is listed,
  else \<^verbatim>\<open>len(custom_order)\<close> in the full list and 999 in the tracked list.
\<close>

definition order_index :: "json \<Rightarrow> json \<Rightarrow> py_error + nat \<Rightarrow> py_error + nat" where
  "order_index custom_order q_id unlisted =
     ebind (py_contains q_id custom_order) (\<lambda>listed.
       if listed then py_index custom_order q_id else unlisted)"

text \<open>
  The key of the full list is \<^verbatim>\<open>(not q['is_tracked'], order_index, q['is_completed'])\<close>.
  Python compares the third components of two keys only when the first two agree, and which
  pairs of keys meet depends on the sorting algorithm; the model reads the completed flag as
  a number (a boolean or an integer) when it builds the key and raises \<^verbatim>\<open>TypeError\<close> on any
  other value. On progress documents whose completed flags are booleans or integers the
  model is the source.
\<close>

definition sort_key_full :: "json \<Rightarrow> json \<Rightarrow> py_error + bool \<times> nat \<times> int" where
  "sort_key_full custom_order q =
     ebind (py_getitem q ''id'') (\<lambda>q_id.
     ebind (order_index custom_order q_id (py_len custom_order)) (\<lambda>i.
     ebind (py_getitem q ''is_tracked'') (\<lambda>is_tracked.
     ebind (py_getitem q ''is_completed'') (\<lambda>is_completed.
       (case py_num is_completed of
          None \<Rightarrow> Inl TypeError
        | Some c \<Rightarrow> Inr (\<not> truthy is_tracked, i, c))))))"

definition sort_key_tracked :: "json \<Rightarrow> json \<Rightarrow> py_error + nat" where
  "sort_key_tracked custom_order q =
     ebind (py_getitem q ''id'') (\<lambda>q_id. order_index custom_order q_id (Inr 999))"

definition tracked_incomplete :: "json \<Rightarrow> py_error + bool" where
  "tracked_incomplete q =
     ebind (py_getitem q ''is_tracked'') (\<lambda>is_tracked.
       if truthy is_tracked
       then ebind (py_getitem q ''is_completed'') (\<lambda>is_completed. Inr (\<not> truthy is_completed))
       else Inr False)"

text \<open>The result comes with the progress document: the \<open>quests\<close> entry is created when
  it is missing.\<close>

definition get_filtered_quests :: "data_manager \<Rightarrow> bool \<Rightarrow> py_error + json list \<times> json" where
  "get_filtered_quests dm tracked_only =
     ebind (py_contains_str ''quests'' (user_progress dm)) (\<lambda>present.
     ebind (if present then Inr (user_progress dm)
            else py_setitem (user_progress dm) ''quests'' (JObj [])) (\<lambda>progress.
     ebind (fold_err (quest_info progress) (quest_data dm) []) (\<lambda>all_quest_info.
     ebind (dict_get progress (JStr ''quest_order'') (JList [])) (\<lambda>custom_order.
     ebind (py_sorted (sort_key_full custom_order) all_quest_info) (\<lambda>sorted_quests.
       if tracked_only then
         ebind (filter_err tracked_incomplete all_quest_info) (\<lambda>tracked.
         ebind (py_sorted (sort_key_tracked custom_order) tracked) (\<lambda>result.
           Inr (result, progress)))
       else Inr (sorted_quests, progress))))))"

section \<open>What the specification says, for comparison with the code\<close>

subsection \<open>Localized names\<close>

text \<open>
  The name of a resolved item: the entry of the requested language in its name table when
  there is one, else its canonical name, else \<open>Unknown\<close>. \<open>names_is_table\<close> says that the
  \<open>names\<close> entry of an item, when there is one, is a table.
\<close>

definition localized_name_spec :: "(string \<times> json) list \<Rightarrow> string \<Rightarrow> json" where
  "localized_name_spec item lang_code =
     (case (case map_of item ''names'' of Some (JObj names) \<Rightarrow> map_of names lang_code | _ \<Rightarrow> None) of
        Some entry \<Rightarrow> entry
      | None \<Rightarrow> (case map_of item ''name'' of Some name \<Rightarrow> name | None \<Rightarrow> JStr ''Unknown''))"

definition names_is_table :: "(string \<times> json) list \<Rightarrow> bool" where
  "names_is_table item = (case map_of item ''names'' of None \<Rightarrow> True | Some (JObj names) \<Rightarrow> True | _ \<Rightarrow> False)"

definition nonempty_dict :: "json \<Rightarrow> bool" where
  "nonempty_dict j = (case j of JObj kvs \<Rightarrow> kvs \<noteq> [] | _ \<Rightarrow> False)"

text \<open>
  Title case, said with the alphabet written out: a letter that follows a letter is the small
  letter, any other letter is the capital letter, and every other character stays.
  \<open>is_ascii\<close> says that a string holds code points below 128 only, where the letters are
  the fifty-two of the alphabet.
\<close>

definition lower_letters :: string where
  "lower_letters = ''abcdefghijklmnopqrstuvwxyz''"

definition upper_letters :: string where
  "upper_letters = ''ABCDEFGHIJKLMNOPQRSTUVWXYZ''"

definition is_letter :: "char \<Rightarrow> bool" where
  "is_letter c = (c \<in> set lower_letters \<or> c \<in> set upper_letters)"

definition capital_of :: "char \<Rightarrow> char" where
  "capital_of c = (case map_of (zip lower_letters upper_letters) c of Some u \<Rightarrow> u | None \<Rightarrow> c)"

definition small_of :: "char \<Rightarrow> char" where
  "small_of c = (case map_of (zip upper_letters lower_letters) c of Some l \<Rightarrow> l | None \<Rightarrow> c)"

definition title_case :: "string \<Rightarrow> string" where
  "title_case s =
     map (\<lambda>i. if is_letter (s ! i)
              then (if 0 < i \<and> is_letter (s ! (i - 1)) then small_of (s ! i) else capital_of (s ! i))
              else s ! i)
       [0..<length s]"

definition is_ascii :: "string \<Rightarrow> bool" where
  "is_ascii s = list_all (\<lambda>c. (of_char c :: nat) < 128) s"

subsection \<open>Requirements\<close>

text \<open>
  Total readers of a document: the value under a key, or the default when the key is
  missing; an integer field and a list field.
\<close>

definition jget :: "json \<Rightarrow> json \<Rightarrow> json \<Rightarrow> json" where
  "jget d k dflt =
     (case d of
        JObj kvs \<Rightarrow>
          (case k of JStr s \<Rightarrow> (case map_of kvs s of None \<Rightarrow> dflt | Some v \<Rightarrow> v) | _ \<Rightarrow> dflt)
      | _ \<Rightarrow> dflt)"

definition int_at :: "json \<Rightarrow> json \<Rightarrow> int" where
  "int_at d k = (case jget d k (JInt 0) of JInt n \<Rightarrow> n | _ \<Rightarrow> 0)"

definition list_at :: "json \<Rightarrow> json \<Rightarrow> json list" where
  "list_at d k = (case jget d k (JList []) of JList xs \<Rightarrow> xs | _ \<Rightarrow> [])"

definition is_int :: "json \<Rightarrow> bool" where
  "is_int j = (case j of JInt n \<Rightarrow> True | _ \<Rightarrow> False)"

definition is_dict :: "json \<Rightarrow> bool" where
  "is_dict j = (case j of JObj kvs \<Rightarrow> True | _ \<Rightarrow> False)"

definition is_id :: "json \<Rightarrow> bool" where
  "is_id j = (case j of JStr s \<Rightarrow> True | JNull \<Rightarrow> True | _ \<Rightarrow> False)"

text \<open>
  What one requirement contributes for the target item: nothing unless it names the target
  and \<open>remaining = required - owned\<close> is positive. What a list of tiers (levels or phases)
  contributes: for each tier strictly above the current one, in the order declared, the
  entries of its requirements, classed \<open>next\<close> when the tier is the current one plus one
  and \<open>future\<close> otherwise.
\<close>

definition requirement_entry ::
  "string \<Rightarrow> string \<Rightarrow> json \<Rightarrow> string \<Rightarrow> json \<Rightarrow> (string \<times> string) list" where
  "requirement_entry prefix req_type counts tid req =
     (let remaining = int_at req (JStr ''quantity'') - int_at counts (JStr tid) in
      if jget req (JStr ''itemId'') JNull = JStr tid \<and> remaining > 0
      then [(prefix @ ''): x'' @ str_of_int remaining, req_type)] else [])"

definition tier_entries ::
  "string \<Rightarrow> (int \<Rightarrow> string) \<Rightarrow> int \<Rightarrow> (int \<Rightarrow> json) \<Rightarrow> string \<Rightarrow> json list \<Rightarrow>
   (string \<times> string) list" where
  "tier_entries number prefix current counts tid tiers =
     concat (map (\<lambda>tier.
       let n = int_at tier (JStr number) in
       if n > current then
         concat (map
           (requirement_entry (prefix n) (if n = current + 1 then ''next'' else ''future'')
              (counts n) tid)
           (list_at tier (JStr ''requirementItemIds'')))
       else [])
       tiers)"

text \<open>
  The hideout: for each station in declaration order, its levels above the user's current
  level (read from the progress document under the station id, default 0), with the owned
  count read from the nested inventory station, level, item (default 0).
\<close>

definition hideout_entries ::
  "(json \<Rightarrow> string) \<Rightarrow> json \<Rightarrow> string \<Rightarrow> json \<Rightarrow> (string \<times> string) list" where
  "hideout_entries repr progress tid station =
     (let sid = jget station (JStr ''id'') JNull;
          h_inv = jget progress (JStr ''hideout_inventory'') (JObj []) in
      tier_entries ''level''
        (\<lambda>lvl. py_str repr (jget station (JStr ''name'') JNull) @ '' (Lvl '' @ str_of_int lvl)
        (int_at progress sid)
        (\<lambda>lvl. jget (jget h_inv sid (JObj [])) (JStr (str_of_int lvl)) (JObj []))
        tid (list_at station (JStr ''levels'')))"

definition hideout_requirements_spec ::
  "(json \<Rightarrow> string) \<Rightarrow> json \<Rightarrow> json list \<Rightarrow> string \<Rightarrow> (string \<times> string) list" where
  "hideout_requirements_spec repr progress stations tid =
     concat (map (hideout_entries repr progress tid) stations)"

text \<open>Well-formed documents: the types the progress document and the station records
  are declared to have.\<close>

definition is_list_of :: "(json \<Rightarrow> bool) \<Rightarrow> json \<Rightarrow> bool" where
  "is_list_of p j = (case j of JList xs \<Rightarrow> list_all p xs | _ \<Rightarrow> False)"

definition is_dict_of :: "(json \<Rightarrow> bool) \<Rightarrow> json \<Rightarrow> bool" where
  "is_dict_of p j = (case j of JObj kvs \<Rightarrow> list_all (\<lambda>kv. p (snd kv)) kvs | _ \<Rightarrow> False)"

definition wf_requirement :: "json \<Rightarrow> bool" where
  "wf_requirement req = (is_dict req \<and> is_int (jget req (JStr ''quantity'') (JInt 0)))"

definition wf_tier :: "string \<Rightarrow> json \<Rightarrow> bool" where
  "wf_tier number tier =
     (is_dict tier \<and> is_int (jget tier (JStr number) (JInt 0))
      \<and> is_list_of wf_requirement (jget tier (JStr ''requirementItemIds'') (JList [])))"

definition wf_station :: "json \<Rightarrow> json \<Rightarrow> bool" where
  "wf_station progress station =
     (is_dict station \<and> is_id (jget station (JStr ''id'') JNull)
      \<and> is_int (jget progress (jget station (JStr ''id'') JNull) (JInt 0))
      \<and> is_list_of (wf_tier ''level'') (jget station (JStr ''levels'') (JList [])))"

definition wf_hideout :: "json \<Rightarrow> json list \<Rightarrow> bool" where
  "wf_hideout progress stations =
     (is_dict progress
      \<and> is_dict_of (is_dict_of (is_dict_of is_int))
          (jget progress (JStr ''hideout_inventory'') (JObj []))
      \<and> list_all (wf_station progress) stations)"

text \<open>
  The projects: structurally the hideout at phase granularity. For each project in
  declaration order, its phases above the completed phase of its progress entry, with the
  owned count read from the inventory of that entry; in the label the project name has lost
  the token \<open>Project\<close>.
\<close>

definition is_str :: "json \<Rightarrow> bool" where
  "is_str j = (case j of JStr s \<Rightarrow> True | _ \<Rightarrow> False)"

definition project_display_name :: "(char \<Rightarrow> bool) \<Rightarrow> json \<Rightarrow> json" where
  "project_display_name isspace name =
     (case name of
        JStr s \<Rightarrow>
          if str_find ''Project'' s \<noteq> None then JStr (strip isspace (str_replace ''Project'' [] s))
          else name
      | _ \<Rightarrow> name)"

definition project_progress :: "json \<Rightarrow> json \<Rightarrow> json" where
  "project_progress progress proj =
     jget (jget progress (JStr ''projects'') (JObj [])) (jget proj (JStr ''id'') JNull)
       (JObj [(''completed_phase'', JInt 0), (''inventory'', JObj [])])"

definition project_entries ::
  "(char \<Rightarrow> bool) \<Rightarrow> (json \<Rightarrow> string) \<Rightarrow> json \<Rightarrow> string \<Rightarrow> json \<Rightarrow> (string \<times> string) list" where
  "project_entries isspace repr progress tid proj =
     (let prog = project_progress progress proj in
      tier_entries ''phase''
        (\<lambda>pnum. py_str repr (project_display_name isspace (jget proj (JStr ''name'') JNull))
           @ '' (Ph'' @ str_of_int pnum)
        (int_at prog (JStr ''completed_phase''))
        (\<lambda>pnum. jget (jget prog (JStr ''inventory'') (JObj [])) (JStr (str_of_int pnum)) (JObj []))
        tid (list_at proj (JStr ''phases'')))"

definition project_requirements_spec ::
  "(char \<Rightarrow> bool) \<Rightarrow> (json \<Rightarrow> string) \<Rightarrow> json \<Rightarrow> json list \<Rightarrow> string \<Rightarrow> (string \<times> string) list" where
  "project_requirements_spec isspace repr progress projects tid =
     concat (map (project_entries isspace repr progress tid) projects)"

definition wf_project :: "json \<Rightarrow> json \<Rightarrow> bool" where
  "wf_project progress proj =
     (is_dict proj \<and> is_id (jget proj (JStr ''id'') JNull)
      \<and> is_str (jget proj (JStr ''name'') JNull)
      \<and> is_dict (project_progress progress proj)
      \<and> is_int (jget (project_progress progress proj) (JStr ''completed_phase'') (JInt 0))
      \<and> is_dict_of (is_dict_of is_int)
          (jget (project_progress progress proj) (JStr ''inventory'') (JObj []))
      \<and> is_list_of (wf_tier ''phase'') (jget proj (JStr ''phases'') (JList [])))"

definition wf_projects :: "json \<Rightarrow> json list \<Rightarrow> bool" where
  "wf_projects progress projects =
     (is_dict progress \<and> is_dict (jget progress (JStr ''projects'') (JObj []))
      \<and> list_all (wf_project progress) projects)"

subsection \<open>The item index\<close>

text \<open>
  The names under which a name table is indexed: every value that is not empty, as a string
  and stripped. The item object as it is stored: its \<open>name\<close> is the stripped \<open>en\<close> value, its
  \<open>names\<close> is the whole table.
\<close>

definition indexed_names :: "(char \<Rightarrow> bool) \<Rightarrow> (json \<Rightarrow> string) \<Rightarrow> (string \<times> json) list \<Rightarrow> string set" where
  "indexed_names isspace repr name_obj = {strip isspace (py_str repr (snd e)) |e. e \<in> set name_obj \<and> truthy (snd e)}"

definition canonical_item ::
  "(char \<Rightarrow> bool) \<Rightarrow> (json \<Rightarrow> string) \<Rightarrow> (string \<times> json) list \<Rightarrow> (string \<times> json) list \<Rightarrow> json \<Rightarrow> json" where
  "canonical_item isspace repr item_fields name_obj en =
     JObj (AList.update ''names'' (JObj name_obj)
       (AList.update ''name'' (JStr (strip isspace (py_str repr en))) item_fields))"

subsection \<open>The quest view\<close>

text \<open>
  The progress document after the query: the \<open>quests\<close> entry is there. The view of a quest:
  the quest record with its name and objectives in the display language and the three
  progress fields merged in (defaults: not completed, not tracked, no objectives completed).
\<close>

definition ensure_quests :: "json \<Rightarrow> json" where
  "ensure_quests progress =
     (case progress of
        JObj kvs \<Rightarrow> (if map_of kvs ''quests'' = None then JObj (AList.update ''quests'' (JObj []) kvs) else progress)
      | _ \<Rightarrow> progress)"

definition quest_entry :: "json \<Rightarrow> json \<Rightarrow> json" where
  "quest_entry progress quest =
     jget (jget progress (JStr ''quests'') (JObj [])) (jget quest (JStr ''id'') JNull) (JObj [])"

definition quest_view :: "json \<Rightarrow> json \<Rightarrow> json" where
  "quest_view progress quest =
     (case quest of
        JObj copy \<Rightarrow>
          JObj (AList.update ''objectives_completed''
                  (jget (quest_entry progress quest) (JStr ''objectives_completed'') (JList []))
               (AList.update ''is_tracked''
                  (jget (quest_entry progress quest) (JStr ''is_tracked'') (JBool False))
               (AList.update ''is_completed''
                  (jget (quest_entry progress quest) (JStr ''quest_completed'') (JBool False))
               (AList.update ''objectives''
                  (JList (fold flatten_objective (list_at (JObj (localize_name copy)) (JStr ''objectives'')) []))
                  (localize_name copy)))))
      | _ \<Rightarrow> quest)"

text \<open>
  The keys of the sort. The rank of a quest in the custom order is its first position there;
  a quest that is not listed gets the rank \<open>unlisted\<close>.
\<close>

definition is_tracked :: "json \<Rightarrow> bool" where
  "is_tracked q = truthy (jget q (JStr ''is_tracked'') (JBool False))"

definition is_completed :: "json \<Rightarrow> bool" where
  "is_completed q = truthy (jget q (JStr ''is_completed'') (JBool False))"

definition custom_rank :: "json list \<Rightarrow> nat \<Rightarrow> json \<Rightarrow> nat" where
  "custom_rank custom_order unlisted q =
     (case list_index custom_order (jget q (JStr ''id'') JNull) of Some i \<Rightarrow> i | None \<Rightarrow> unlisted)"

definition full_key :: "json list \<Rightarrow> json \<Rightarrow> bool \<times> nat \<times> bool" where
  "full_key custom_order q =
     (\<not> is_tracked q, custom_rank custom_order (length custom_order) q, is_completed q)"

definition is_bool :: "json \<Rightarrow> bool" where
  "is_bool j = (case j of JBool b \<Rightarrow> True | _ \<Rightarrow> False)"

definition is_list :: "json \<Rightarrow> bool" where
  "is_list j = (case j of JList xs \<Rightarrow> True | _ \<Rightarrow> False)"

definition wf_quest :: "json \<Rightarrow> json \<Rightarrow> bool" where
  "wf_quest progress quest =
     (is_dict quest
      \<and> (case jget quest (JStr ''id'') JNull of JStr s \<Rightarrow> s \<noteq> [] | _ \<Rightarrow> False)
      \<and> is_list (jget (JObj (case quest of JObj copy \<Rightarrow> localize_name copy | _ \<Rightarrow> []))
            (JStr ''objectives'') (JList []))
      \<and> is_dict (quest_entry progress quest)
      \<and> is_bool (jget (quest_entry progress quest) (JStr ''quest_completed'') (JBool False)))"

definition wf_quests :: "json \<Rightarrow> json list \<Rightarrow> bool" where
  "wf_quests progress quests =
     (is_dict progress \<and> is_dict (jget progress (JStr ''quests'') (JObj []))
      \<and> is_list (jget progress (JStr ''quest_order'') (JList []))
      \<and> list_all (wf_quest progress) quests)"

definition view_ok :: "json \<Rightarrow> bool" where
  "view_ok q =
     (is_dict q
      \<and> (case jget q (JStr ''id'') JNull of JStr s \<Rightarrow> s \<noteq> [] | _ \<Rightarrow> False)
      \<and> py_getitem q ''id'' = Inr (jget q (JStr ''id'') JNull)
      \<and> py_getitem q ''is_tracked'' = Inr (jget q (JStr ''is_tracked'') (JBool False))
      \<and> py_getitem q ''is_completed'' = Inr (jget q (JStr ''is_completed'') (JBool False))
      \<and> is_bool (jget q (JStr ''is_completed'') (JBool False)))"

text \<open>
  The order of the full list, in words of the specification: tracked quests before untracked
  ones; then by rank in the custom order; then incomplete quests before completed ones.
\<close>

definition quest_precedes :: "json list \<Rightarrow> json \<Rightarrow> json \<Rightarrow> bool" where
  "quest_precedes custom_order a b =
     (let rank = custom_rank custom_order (length custom_order) in
      (is_tracked a \<and> \<not> is_tracked b)
      \<or> (is_tracked a = is_tracked b
          \<and> (rank a < rank b \<or> (rank a = rank b \<and> (is_completed a \<longrightarrow> is_completed b)))))"

definition is_listed :: "json list \<Rightarrow> json \<Rightarrow> bool" where
  "is_listed custom_order q = list_ex (\<lambda>y. py_eq y (jget q (JStr ''id'') JNull)) custom_order"

section \<open>Example data\<close>

definition example_item :: json where
  "example_item = JObj [(''id'', JStr ''arc_alloy''), (''name'', JStr ''Arc Alloy''),
     (''names'', JObj [(''en'', JStr ''Arc Alloy''), (''de'', JStr ''ARC-Legierung'')])]"

definition example_workbench :: json where
  "example_workbench = JObj [(''id'', JStr ''workbench''), (''name'', JStr ''Workbench''),
     (''levels'', JList [
        JObj [(''level'', JInt 1),
              (''requirementItemIds'', JList [JObj [(''itemId'', JStr ''arc_alloy''), (''quantity'', JInt 2)]])],
        JObj [(''level'', JInt 3),
              (''requirementItemIds'', JList [JObj [(''itemId'', JStr ''wires''), (''quantity'', JInt 1)],
                                            JObj [(''itemId'', JStr ''arc_alloy''), (''quantity'', JInt 10)]])],
        JObj [(''level'', JInt 5),
              (''requirementItemIds'', JList [JObj [(''itemId'', JStr ''arc_alloy''), (''quantity'', JInt 7)]])]])]"

definition example_project :: json where
  "example_project = JObj [(''id'', JStr ''expedition''), (''name'', JStr ''Expedition Project''),
     (''phases'', JList [
        JObj [(''phase'', JInt 1),
              (''requirementItemIds'', JList [JObj [(''itemId'', JStr ''arc_alloy''), (''quantity'', JInt 5)]])],
        JObj [(''phase'', JInt 2),
              (''requirementItemIds'', JList [JObj [(''itemId'', JStr ''arc_alloy''), (''quantity'', JInt 8)]])],
        JObj [(''phase'', JInt 3),
              (''requirementItemIds'', JList [JObj [(''itemId'', JStr ''arc_alloy''), (''quantity'', JInt 3)]])]])]"

definition example_progress :: json where
  "example_progress = JObj [(''workbench'', JInt 2),
     (''hideout_inventory'', JObj [(''workbench'', JObj [(''3'', JObj [(''arc_alloy'', JInt 4)])])]),
     (''projects'', JObj [(''expedition'', JObj [(''completed_phase'', JInt 1),
        (''inventory'', JObj [(''2'', JObj [(''arc_alloy'', JInt 3)])])])]),
     (''theme'', JStr ''dark'')]"

definition example_manager :: data_manager where
  "example_manager = \<lparr>items = [(''Arc Alloy'', example_item), (''ARC-Legierung'', example_item)],
     hideout_data = [example_workbench], project_data = JList [example_project], quest_data = [],
     user_progress = example_progress, id_to_item_map = [(JStr ''arc_alloy'', example_item)]\<rparr>"

definition example_items_dir :: directory where
  "example_items_dir = Listing
     [(''arc_alloy.json'', Inr (JObj [(''id'', JStr ''arc_alloy''),
         (''name'', JObj [(''en'', JStr '' Arc Alloy ''), (''de'', JStr ''Legierung'')])])),
      (''notes.txt'', Inl OSError),
      (''alloy_b.json'', Inr (JObj [(''id'', JStr ''alloy_b''),
         (''name'', JObj [(''en'', JStr ''Legierung'')])]))]"

definition example_alloy_indexed :: json where
  "example_alloy_indexed = JObj [(''id'', JStr ''arc_alloy''), (''name'', JStr ''Arc Alloy''),
     (''names'', JObj [(''en'', JStr '' Arc Alloy ''), (''de'', JStr ''Legierung'')])]"

definition example_alloy_b_indexed :: json where
  "example_alloy_b_indexed = JObj [(''id'', JStr ''alloy_b''), (''name'', JStr ''Legierung''),
     (''names'', JObj [(''en'', JStr ''Legierung'')])]"

definition example_quests :: "json list" where
  "example_quests =
     [JObj [(''id'', JStr ''scavenger''), (''name'', JObj [(''en'', JStr ''Scavenger'')])],
      JObj [(''id'', JStr ''supply_run''), (''name'', JStr ''Supply Run''),
            (''objectives'', JList [JObj [(''en'', JStr ''Deliver wires'')], JStr ''Return''])],
      JObj [(''id'', JStr ''first_steps''), (''name'', JStr ''First Steps'')],
      JObj [(''id'', JStr ''lost_signal''), (''name'', JStr ''Lost Signal'')]]"

definition example_quest_progress :: json where
  "example_quest_progress = JObj
     [(''quests'', JObj
        [(''scavenger'', JObj [(''quest_completed'', JBool True)]),
         (''supply_run'', JObj [(''is_tracked'', JBool True)]),
         (''first_steps'', JObj [(''is_tracked'', JBool True), (''quest_completed'', JBool True)])]),
      (''quest_order'', JList [JStr ''first_steps'', JStr ''supply_run''])]"

definition example_quest_manager :: data_manager where
  "example_quest_manager = \<lparr>items = [], hideout_data = [], project_data = JList [],
     quest_data = example_quests, user_progress = example_quest_progress, id_to_item_map = []\<rparr>"

definition quest_ids :: "json list \<Rightarrow> json list" where
  "quest_ids qs = map (\<lambda>q. jget q (JStr ''id'') JNull) qs"

definition fillers :: "nat \<Rightarrow> json list" where
  "fillers n = map (\<lambda>i. JStr (''filler_'' @ str_of_nat i)) [0..<n]"

definition example_long_progress :: json where
  "example_long_progress = JObj
     [(''quests'', JObj [(''late_signal'', JObj [(''is_tracked'', JBool True)]),
                        (''unlisted_job'', JObj [(''is_tracked'', JBool True)])]),
      (''quest_order'', JList ((fillers 1000) @ [JStr ''late_signal'']))]"

definition example_long_manager :: data_manager where
  "example_long_manager = \<lparr>items = [], hideout_data = [], project_data = JList [],
     quest_data = [JObj [(''id'', JStr ''late_signal'')], JObj [(''id'', JStr ''unlisted_job'')]],
     user_progress = example_long_progress, id_to_item_map = []\<rparr>"

definition example_nameless_project :: json where
  "example_nameless_project = JObj [(''id'', JStr ''expedition''),
     (''phases'', JList [
        JObj [(''phase'', JInt 1),
              (''requirementItemIds'', JList [JObj [(''itemId'', JStr ''arc_alloy''), (''quantity'', JInt 5)]])]])]"

definition example_nameless_station :: json where
  "example_nameless_station = JObj [(''id'', JStr ''stove''),
     (''levels'', JList [
        JObj [(''level'', JInt 1),
              (''requirementItemIds'', JList [JObj [(''itemId'', JStr ''arc_alloy''), (''quantity'', JInt 2)]])]])]"

definition example_nameless_manager :: data_manager where
  "example_nameless_manager = \<lparr>items = [(''Arc Alloy'', example_item)],
     hideout_data = [example_nameless_station], project_data = JList [example_nameless_project],
     quest_data = [], user_progress = JObj [], id_to_item_map = [(JStr ''arc_alloy'', example_item)]\<rparr>"

section \<open>Properties\<close>

lemma ebind_Inr [simp]: "ebind (Inr v) f = f v"
  by (simp add: ebind_def)

lemma ebind_Inl [simp]: "ebind (Inl e) f = Inl e"
  by (simp add: ebind_def)

subsection \<open>Item notes\<close>

lemma strip_nonempty_iff: "strip isspace s \<noteq> [] \<longleftrightarrow> (\<exists>c \<in> set s. \<not> isspace c)"
proof -
  have "strip isspace s \<noteq> [] \<longleftrightarrow> dropWhile isspace (rev (dropWhile isspace s)) \<noteq> []"
    by (simp add: strip_def)
  also have "\<dots> \<longleftrightarrow> (\<exists>c \<in> set (dropWhile isspace s). \<not> isspace c)"
    by (simp add: dropWhile_eq_Nil_conv)
  also have "\<dots> \<longleftrightarrow> (\<exists>c \<in> set s. \<not> isspace c)"
  proof
    assume "\<exists>c \<in> set (dropWhile isspace s). \<not> isspace c"
    then show "\<exists>c \<in> set s. \<not> isspace c"
      using set_dropWhileD by fast
  next
    assume "\<exists>c \<in> set s. \<not> isspace c"
    then have "dropWhile isspace s \<noteq> []"
      by (simp add: dropWhile_eq_Nil_conv)
    then have "\<not> isspace (hd (dropWhile isspace s))"
      by (rule hd_dropWhile)
    moreover have "hd (dropWhile isspace s) \<in> set (dropWhile isspace s)"
      using \<open>dropWhile isspace s \<noteq> []\<close> by simp
    ultimately show "\<exists>c \<in> set (dropWhile isspace s). \<not> isspace c" by blast
  qed
  finally show ?thesis .
qed

lemma set_item_note_stores_stripped:
  assumes "map_of kvs ''item_notes'' = None \<or> (\<exists>ns. map_of kvs ''item_notes'' = Some (JObj ns))"
  shows "\<exists>p' fs'.
     set_item_note isspace dumps progress_file flt remove_ok (JObj kvs) fs item_id note = Inr (p', fs')
     \<and> get_item_note p' item_id = Inr (JStr (strip isspace note), p')"
  using assms
  by (auto simp: set_item_note_def get_item_note_def py_contains_str_def py_setitem_def
      py_getitem_def py_delitem_def dict_get_def update_conv' delete_conv' strip_def)

text \<open>
  Claim C10. The progress document is a dict whose \<open>item_notes\<close> entry, when there is one,
  is a dict. Then \<^verbatim>\<open>set_item_note\<close> returns, and a following \<^verbatim>\<open>get_item_note\<close> for the same
  id returns the note with its surrounding whitespace stripped when the note has a character
  that is not whitespace; when the note is empty or all whitespace, no note is stored under
  the id any more and the query returns the empty string. This holds whichever characters
  \<^verbatim>\<open>str.isspace\<close> accepts. \<^verbatim>\<open>get_item_note\<close> leaves the progress document as it found it.
\<close>

theorem item_note_set_then_get:
  assumes "map_of kvs ''item_notes'' = None \<or> (\<exists>ns. map_of kvs ''item_notes'' = Some (JObj ns))"
  shows "\<exists>p' fs'.
     set_item_note isspace dumps progress_file flt remove_ok (JObj kvs) fs item_id note = Inr (p', fs')
     \<and> ((\<exists>c \<in> set note. \<not> isspace c) \<longrightarrow>
          get_item_note p' item_id = Inr (JStr (strip isspace note), p'))
     \<and> ((\<forall>c \<in> set note. isspace c) \<longrightarrow>
          get_item_note p' item_id = Inr (JStr [], p')
          \<and> py_getitem p' ''item_notes'' \<noteq> Inl KeyError
          \<and> ebind (py_getitem p' ''item_notes'') (py_contains_str item_id) = Inr False)
     \<and> (\<forall>p i r q. get_item_note p i = Inr (r, q) \<longrightarrow> q = p)"
proof -
  have get_pure: "\<forall>p i r q. get_item_note p i = Inr (r, q) \<longrightarrow> q = p"
    by (auto simp: get_item_note_def ebind_def split: sum.splits)
  have blank: "strip isspace note = []" if "\<forall>c \<in> set note. isspace c"
    using that strip_nonempty_iff [of isspace "note"] by blast
  from assms obtain p' fs' where
    s: "set_item_note isspace dumps progress_file flt remove_ok (JObj kvs) fs item_id note = Inr (p', fs')"
    and g: "get_item_note p' item_id = Inr (JStr (strip isspace note), p')"
    using set_item_note_stores_stripped by blast
  have del: "py_getitem p' ''item_notes'' \<noteq> Inl KeyError
      \<and> ebind (py_getitem p' ''item_notes'') (py_contains_str item_id) = Inr False"
    if "strip isspace note = []"
    using assms s that
    by (auto simp: set_item_note_def py_contains_str_def py_setitem_def
        py_getitem_def py_delitem_def update_conv' delete_conv' split: if_splits)
  show ?thesis
    using s g blank del get_pure by (intro exI [of _ p'] exI [of _ fs']) auto
qed

theorem item_note_set_then_get_witness:
  "(\<exists>p' fs'.
      set_item_note latin1_isspace (\<lambda>j. ''{}'') ''progress.json'' NoFault True
        (JObj [(''item_notes'', JObj [(''arc_alloy'', JStr ''old'')])]) Map.empty
        ''arc_alloy'' '' keep 3 '' = Inr (p', fs')
      \<and> get_item_note p' ''arc_alloy'' = Inr (JStr ''keep 3'', p'))
   \<and> (\<exists>p' fs'.
      set_item_note latin1_isspace (\<lambda>j. ''{}'') ''progress.json'' NoFault True
        (JObj [(''item_notes'', JObj [(''arc_alloy'', JStr ''old'')])]) Map.empty
        ''arc_alloy'' [CHR '' '', char_of (160 :: nat)] = Inr (p', fs')
      \<and> get_item_note p' ''arc_alloy'' = Inr (JStr [], p'))"
  using item_note_set_then_get [where isspace = latin1_isspace and kvs = "[(''item_notes'', JObj [(''arc_alloy'', JStr ''old'')])]"
      and dumps = "\<lambda>j. ''{}''" and progress_file = "''progress.json''" and flt = NoFault
      and remove_ok = True and fs = Map.empty and item_id = "''arc_alloy''" and ?note = "'' keep 3 ''"]
    item_note_set_then_get [where isspace = latin1_isspace and kvs = "[(''item_notes'', JObj [(''arc_alloy'', JStr ''old'')])]"
      and dumps = "\<lambda>j. ''{}''" and progress_file = "''progress.json''" and flt = NoFault
      and remove_ok = True and fs = Map.empty and item_id = "''arc_alloy''"
      and ?note = "[CHR '' '', char_of (160 :: nat)]"]
  by (simp add: strip_def latin1_isspace_def) blast

subsection \<open>Saving and loading the progress document\<close>

lemma temp_file_differs: "progress_file @ ''.tmp'' \<noteq> progress_file"
  by simp

lemma save_keeps_destination:
  "flt \<noteq> NoFault \<Longrightarrow>
   save_user_progress dumps progress_file flt remove_ok progress fs progress_file = fs progress_file"
  by (cases flt) (simp_all add: save_user_progress_def cleanup_temp_def Let_def)

lemma save_writes_destination:
  "save_user_progress dumps progress_file NoFault remove_ok progress fs progress_file
     = Some (dumps progress)"
  by (simp add: save_user_progress_def Let_def)

lemma save_removes_temp:
  "raises flt \<and> remove_ok \<or> flt = NoFault \<Longrightarrow>
   save_user_progress dumps progress_file flt remove_ok progress fs (progress_file @ ''.tmp'') = None"
  by (cases flt) (simp_all add: save_user_progress_def cleanup_temp_def Let_def raises_def)

text \<open>
  Claim C2, as stated, at a concrete input: \<^verbatim>\<open>os.fsync\<close> raises and the \<^verbatim>\<open>os.remove\<close> of the
  handler raises too (the handler passes over it). The save has failed and the temporary
  file is still there, with the new text in it.
\<close>

theorem save_failure_leaves_temp_counterexample:
  "raises SyncRaises \<and>
   save_user_progress (\<lambda>j. ''{}'') ''progress.json'' SyncRaises False (JObj [])
     [''progress.json'' \<mapsto> ''{\"quests\": {}}''] ''progress.json.tmp'' = Some ''{}''"
  by (simp add: save_user_progress_def cleanup_temp_def raises_def)

text \<open>
  Claim C2, amended. Whatever goes wrong, the destination holds afterwards what it held
  before or the whole new text: it is left untouched unless the save runs to its end, and
  then it holds the new text. That covers an interruption during the write or between the
  write and the replace. When a call of the sequence raises, the temporary file is gone
  afterwards provided the removal in the handler succeeds; after a save that ran to its end
  it is gone too.
\<close>

theorem save_user_progress_atomic:
  "(flt \<noteq> NoFault \<longrightarrow>
      save_user_progress dumps progress_file flt remove_ok progress fs progress_file
        = fs progress_file)
   \<and> (flt = NoFault \<longrightarrow>
      save_user_progress dumps progress_file flt remove_ok progress fs progress_file
        = Some (dumps progress)
      \<and> save_user_progress dumps progress_file flt remove_ok progress fs
          (progress_file @ ''.tmp'') = None)
   \<and> (raises flt \<and> remove_ok \<longrightarrow>
      save_user_progress dumps progress_file flt remove_ok progress fs
        (progress_file @ ''.tmp'') = None)"
  by (simp add: save_keeps_destination save_writes_destination save_removes_temp)

theorem save_user_progress_atomic_witness:
  "save_user_progress (\<lambda>j. ''{}'') ''progress.json'' (WriteRaises 1) True (JObj [])
     [''progress.json'' \<mapsto> ''old''] ''progress.json'' = Some ''old''
   \<and> save_user_progress (\<lambda>j. ''{}'') ''progress.json'' (WriteRaises 1) True (JObj [])
     [''progress.json'' \<mapsto> ''old''] ''progress.json.tmp'' = None
   \<and> save_user_progress (\<lambda>j. ''{}'') ''progress.json'' InterruptedBeforeReplace True (JObj [])
     [''progress.json'' \<mapsto> ''old''] ''progress.json'' = Some ''old''
   \<and> save_user_progress (\<lambda>j. ''{}'') ''progress.json'' NoFault True (JObj [])
     [''progress.json'' \<mapsto> ''old''] ''progress.json'' = Some ''{}''"
  using save_user_progress_atomic [where flt = "WriteRaises 1" and dumps = "\<lambda>j. ''{}''"
      and progress_file = "''progress.json''" and remove_ok = True and progress = "JObj []"
      and fs = "[''progress.json'' \<mapsto> ''old'']"]
    save_user_progress_atomic [where flt = InterruptedBeforeReplace and dumps = "\<lambda>j. ''{}''"
      and progress_file = "''progress.json''" and remove_ok = True and progress = "JObj []"
      and fs = "[''progress.json'' \<mapsto> ''old'']"]
    save_user_progress_atomic [where flt = NoFault and dumps = "\<lambda>j. ''{}''"
      and progress_file = "''progress.json''" and remove_ok = True and progress = "JObj []"
      and fs = "[''progress.json'' \<mapsto> ''old'']"]
  by (simp add: raises_def)

text \<open>
  Claim C3. \<^verbatim>\<open>json.load\<close> reads back what \<^verbatim>\<open>json.dump\<close> wrote for the state \<open>s\<close> (the
  contract of the library). Then a save that runs to its end followed by a load of the
  progress file returns \<open>s\<close> itself, whatever keys it holds and whatever default the load
  is given.
\<close>

theorem save_then_load:
  assumes "loads (dumps s) = Inr s"
  shows "load_json loads (save_user_progress dumps progress_file NoFault remove_ok s fs)
           progress_file dflt = s"
  using assms by (simp add: load_json_def save_user_progress_def Let_def)

theorem save_then_load_witness:
  "load_json (\<lambda>t. if t = ''{\"theme\": 1}'' then Inr (JObj [(''theme'', JInt 1)]) else Inl TypeError)
     (save_user_progress (\<lambda>j. ''{\"theme\": 1}'') ''progress.json'' NoFault True
        (JObj [(''theme'', JInt 1)]) Map.empty)
     ''progress.json'' (JObj []) = JObj [(''theme'', JInt 1)]"
  using save_then_load [where loads = "\<lambda>t. if t = ''{\"theme\": 1}'' then Inr (JObj [(''theme'', JInt 1)]) else Inl TypeError"
      and dumps = "\<lambda>j. ''{\"theme\": 1}''" and s = "JObj [(''theme'', JInt 1)]"
      and progress_file = "''progress.json''" and remove_ok = True and fs = Map.empty
      and dflt = "JObj []"]
  by simp

subsection \<open>Missing files and directories\<close>

text \<open>
  Claim C9 at the projects document: the file is missing and the caller's default is the
  empty list, as in \<^verbatim>\<open>_load_json(Constants.PROJECTS_FILE, [])\<close>. The empty list is falsy,
  so \<^verbatim>\<open>default or {}\<close> is the empty dict: the loader does not return the default it was
  given. The progress document, whose default is the empty dict, and a missing directory do
  yield the empty state and the empty list.
\<close>

theorem load_json_missing_file_list_default:
  "load_json loads Map.empty ''projects.json'' (JList []) = JObj []
   \<and> load_json loads Map.empty ''projects.json'' (JList []) \<noteq> JList []
   \<and> load_json loads Map.empty ''progress.json'' (JObj []) = JObj []
   \<and> load_json_dir Missing = Inr ([], [NotFound])"
  by (simp add: load_json_def load_json_dir_def)

subsection \<open>Localized names\<close>

lemma pydict_set_values: "snd ` set (pydict_set k v m) \<subseteq> insert v (snd ` set m)"
  by (induction m) auto

lemma pydict_get_value: "pydict_get m k = Some v \<Longrightarrow> v \<in> snd ` set m"
  by (induction m) (auto split: if_splits)

lemma map_item_id_values:
  assumes "map_item_id item m = Inr m'" and "\<forall>v \<in> snd ` set m. nonempty_dict v"
  shows "\<forall>v \<in> snd ` set m'. nonempty_dict v"
proof (cases item)
  case (JObj kvs)
  show ?thesis
  proof (cases "truthy (case map_of kvs ''id'' of None \<Rightarrow> JNull | Some v \<Rightarrow> v)")
    case True
    then have ne: "nonempty_dict item"
      using JObj by (cases kvs) (auto simp: nonempty_dict_def)
    from True assms(1) JObj obtain k where "m' = pydict_set k item m"
      by (auto simp: map_item_id_def dict_get_def py_getitem_def split: option.splits if_splits)
    then show ?thesis
      using assms(2) ne pydict_set_values [of k item m] by blast
  next
    case False
    then have "m' = m"
      using assms(1) JObj by (simp add: map_item_id_def dict_get_def)
    then show ?thesis using assms(2) by simp
  qed
qed (use assms in \<open>simp_all add: map_item_id_def dict_get_def\<close>)

lemma fold_map_item_id_values:
  "fold_err map_item_id xs m = Inr m' \<Longrightarrow> \<forall>v \<in> snd ` set m. nonempty_dict v \<Longrightarrow>
   \<forall>v \<in> snd ` set m'. nonempty_dict v"
proof (induction xs arbitrary: m)
  case Nil
  then show ?case by simp
next
  case (Cons x xs)
  from Cons.prems(1) obtain m1 where s: "map_item_id x m = Inr m1"
    and r: "fold_err map_item_id xs m1 = Inr m'"
    by (cases "map_item_id x m") auto
  from map_item_id_values [OF s Cons.prems(2)] Cons.IH [OF r] show ?case by blast
qed

lemma id_map_items_nonempty:
  assumes "build_id_to_item_map its = Inr m" and "pydict_get m k = Some item"
  shows "\<exists>kvs. item = JObj kvs \<and> kvs \<noteq> []"
proof -
  have "\<forall>v \<in> snd ` set m. nonempty_dict v"
    using fold_map_item_id_values [of "map snd its" "[]" m] assms(1)
    by (simp add: build_id_to_item_map_def)
  then have "nonempty_dict item"
    using pydict_get_value [OF assms(2)] by blast
  then show ?thesis
    by (cases item) (simp_all add: nonempty_dict_def)
qed

lemma chars_between:
  assumes "list_all (\<lambda>n. P (char_of n)) [a..<b]" and "a \<le> (of_char c :: nat)" and "(of_char c :: nat) < b"
  shows "P c"
proof -
  have "(of_char c :: nat) \<in> set [a..<b]" using assms(2,3) by simp
  then have "P (char_of (of_char c :: nat))"
    using assms(1) unfolding list_all_iff by blast
  then show ?thesis by simp
qed

lemma lower_range:
  "list_all (\<lambda>n. char_of n \<in> set lower_letters \<and> to_upper (char_of n) = capital_of (char_of n)
       \<and> small_of (char_of n) = char_of n) [97..<123]"
  by code_simp

lemma upper_range:
  "list_all (\<lambda>n. char_of n \<in> set upper_letters \<and> to_lower (char_of n) = small_of (char_of n)
       \<and> capital_of (char_of n) = char_of n) [65..<91]"
  by code_simp

lemma letters_cased: "list_all is_lower lower_letters" "list_all is_upper upper_letters"
  by code_simp+

lemma is_lower_iff: "is_lower c = (c \<in> set lower_letters)"
proof
  assume "is_lower c"
  then have "97 \<le> (of_char c :: nat)" "(of_char c :: nat) < 123"
    by (simp_all add: is_lower_def Let_def)
  with lower_range have "c \<in> set lower_letters \<and> to_upper c = capital_of c \<and> small_of c = c"
    by (rule chars_between)
  then show "c \<in> set lower_letters" by simp
next
  assume "c \<in> set lower_letters"
  then show "is_lower c" using letters_cased(1) by (simp add: list_all_iff)
qed

lemma is_upper_iff: "is_upper c = (c \<in> set upper_letters)"
proof
  assume "is_upper c"
  then have "65 \<le> (of_char c :: nat)" "(of_char c :: nat) < 91"
    by (simp_all add: is_upper_def Let_def)
  with upper_range have "c \<in> set upper_letters \<and> to_lower c = small_of c \<and> capital_of c = c"
    by (rule chars_between)
  then show "c \<in> set upper_letters" by simp
next
  assume "c \<in> set upper_letters"
  then show "is_upper c" using letters_cased(2) by (simp add: list_all_iff)
qed

lemma to_upper_capital: "is_lower c \<Longrightarrow> to_upper c = capital_of c"
proof -
  assume "is_lower c"
  then have "97 \<le> (of_char c :: nat)" "(of_char c :: nat) < 123"
    by (simp_all add: is_lower_def Let_def)
  with lower_range have "c \<in> set lower_letters \<and> to_upper c = capital_of c \<and> small_of c = c"
    by (rule chars_between)
  then show ?thesis by simp
qed

lemma to_lower_small: "is_upper c \<Longrightarrow> to_lower c = small_of c"
proof -
  assume "is_upper c"
  then have "65 \<le> (of_char c :: nat)" "(of_char c :: nat) < 91"
    by (simp_all add: is_upper_def Let_def)
  with upper_range have "c \<in> set upper_letters \<and> to_lower c = small_of c \<and> capital_of c = c"
    by (rule chars_between)
  then show ?thesis by simp
qed

lemma small_of_lower: "is_lower c \<Longrightarrow> small_of c = c"
proof -
  assume "is_lower c"
  then have "97 \<le> (of_char c :: nat)" "(of_char c :: nat) < 123"
    by (simp_all add: is_lower_def Let_def)
  with lower_range have "c \<in> set lower_letters \<and> to_upper c = capital_of c \<and> small_of c = c"
    by (rule chars_between)
  then show ?thesis by simp
qed

lemma capital_of_upper: "is_upper c \<Longrightarrow> capital_of c = c"
proof -
  assume "is_upper c"
  then have "65 \<le> (of_char c :: nat)" "(of_char c :: nat) < 91"
    by (simp_all add: is_upper_def Let_def)
  with upper_range have "c \<in> set upper_letters \<and> to_lower c = small_of c \<and> capital_of c = c"
    by (rule chars_between)
  then show ?thesis by simp
qed

lemma not_both_cases: "is_lower c \<Longrightarrow> \<not> is_upper c"
  by (simp add: is_lower_def is_upper_def Let_def)

lemma title_from_index:
  "title_from prev s =
     map (\<lambda>i. if is_letter (s ! i)
              then (if (if i = 0 then prev else is_letter (s ! (i - 1)))
                    then small_of (s ! i) else capital_of (s ! i))
              else s ! i)
       [0..<length s]"
proof (induction s arbitrary: prev)
  case Nil
  then show ?case by simp
next
  case (Cons c cs)
  have l: "is_letter c = (is_lower c \<or> is_upper c)" for c
    by (simp add: is_letter_def is_lower_iff is_upper_iff)
  have tail: "map (\<lambda>i. if is_letter ((c # cs) ! Suc i)
              then (if (if Suc i = 0 then prev else is_letter ((c # cs) ! (Suc i - 1)))
                    then small_of ((c # cs) ! Suc i) else capital_of ((c # cs) ! Suc i))
              else (c # cs) ! Suc i) [0..<length cs]
      = map (\<lambda>i. if is_letter (cs ! i)
              then (if (if i = 0 then is_letter c else is_letter (cs ! (i - 1)))
                    then small_of (cs ! i) else capital_of (cs ! i))
              else cs ! i) [0..<length cs]"
    by (rule map_cong) (auto simp: nth_Cons split: nat.splits)
  show ?case
    unfolding length_Cons map_upt_Suc tail
    using not_both_cases [of c]
    by (auto simp: Cons.IH l to_upper_capital to_lower_small small_of_lower capital_of_upper)
qed

lemma title_is_title_case: "title s = title_case s"
  unfolding title_def title_case_def title_from_index
  by (rule map_cong) auto

lemma localized_name_of_item:
  assumes "names_is_table kvs"
  shows "get_localized_name dm (JObj kvs) lang_code = Inr (localized_name_spec kvs lang_code)"
proof (cases "kvs = []")
  case True
  then show ?thesis
    by (simp add: get_localized_name_def localized_name_spec_def)
next
  case False
  then show ?thesis
    using assms
    by (auto simp: get_localized_name_def localized_name_spec_def names_is_table_def
        dict_get_def py_contains_str_def py_getitem_def split: option.splits json.splits)
qed

text \<open>
  Claim C7. The data manager's id map is the one \<^verbatim>\<open>__init__\<close> builds from the items. An
  ASCII id string that the map does not hold comes back with its underscores replaced by
  spaces and in title case: every letter that follows a letter small, every other letter
  capital. An id string that the map resolves, and an item given directly, yield the
  entry of the requested language in the item's name table when present, else the item's
  canonical name, else \<open>Unknown\<close> (the item's \<open>names\<close> entry being a table when there is
  one).
\<close>

theorem get_localized_name_resolution:
  assumes "build_id_to_item_map (items dm) = Inr (id_to_item_map dm)"
  shows "(pydict_get (id_to_item_map dm) (JStr s) = None \<and> is_ascii s \<longrightarrow>
            get_localized_name dm (JStr s) lang_code
              = Inr (JStr (title_case (map (\<lambda>c. if c = CHR ''_'' then CHR '' '' else c) s))))
       \<and> (\<forall>item. pydict_get (id_to_item_map dm) (JStr s) = Some item \<longrightarrow>
            (\<exists>kvs. item = JObj kvs \<and> (names_is_table kvs \<longrightarrow>
               get_localized_name dm (JStr s) lang_code = Inr (localized_name_spec kvs lang_code))))
       \<and> (names_is_table kvs \<longrightarrow>
            get_localized_name dm (JObj kvs) lang_code = Inr (localized_name_spec kvs lang_code))"
proof (intro conjI impI allI)
  assume "pydict_get (id_to_item_map dm) (JStr s) = None \<and> is_ascii s"
  then show "get_localized_name dm (JStr s) lang_code
      = Inr (JStr (title_case (map (\<lambda>c. if c = CHR ''_'' then CHR '' '' else c) s)))"
    by (simp add: get_localized_name_def title_is_title_case replace_char_def)
next
  fix item
  assume r: "pydict_get (id_to_item_map dm) (JStr s) = Some item"
  from id_map_items_nonempty [OF assms r] obtain kvs where i: "item = JObj kvs" and ne: "kvs \<noteq> []"
    by blast
  have "get_localized_name dm (JStr s) lang_code = get_localized_name dm (JObj kvs) lang_code"
    using r i ne by (simp add: get_localized_name_def)
  then show "\<exists>kvs. item = JObj kvs \<and> (names_is_table kvs \<longrightarrow>
      get_localized_name dm (JStr s) lang_code = Inr (localized_name_spec kvs lang_code))"
    using i localized_name_of_item by auto
next
  assume "names_is_table kvs"
  then show "get_localized_name dm (JObj kvs) lang_code = Inr (localized_name_spec kvs lang_code)"
    by (rule localized_name_of_item)
qed

theorem get_localized_name_resolution_witness:
  "get_localized_name
     \<lparr>items = [(''Arc Alloy'', example_item)], hideout_data = [], project_data = JList [],
      quest_data = [], user_progress = JObj [], id_to_item_map = [(JStr ''arc_alloy'', example_item)]\<rparr>
     (JStr ''rUSTED_gEAR mk2b'') ''de'' = Inr (JStr ''Rusted Gear Mk2B'')
   \<and> get_localized_name
     \<lparr>items = [(''Arc Alloy'', example_item)], hideout_data = [], project_data = JList [],
      quest_data = [], user_progress = JObj [], id_to_item_map = [(JStr ''arc_alloy'', example_item)]\<rparr>
     (JStr ''arc_alloy'') ''de'' = Inr (JStr ''ARC-Legierung'')
   \<and> get_localized_name
     \<lparr>items = [(''Arc Alloy'', example_item)], hideout_data = [], project_data = JList [],
      quest_data = [], user_progress = JObj [], id_to_item_map = [(JStr ''arc_alloy'', example_item)]\<rparr>
     (JObj [(''id'', JStr ''wires''), (''name'', JStr ''Wires'')]) ''de'' = Inr (JStr ''Wires'')"
proof -
  have t: "title_case ''rUSTED gEAR mk2b'' = ''Rusted Gear Mk2B''"
    by code_simp
  have a: "is_ascii ''rUSTED_gEAR mk2b''"
    by code_simp
  show ?thesis
    using get_localized_name_resolution [where dm = "\<lparr>items = [(''Arc Alloy'', example_item)],
        hideout_data = [], project_data = JList [], quest_data = [], user_progress = JObj [],
        id_to_item_map = [(JStr ''arc_alloy'', example_item)]\<rparr>"
        and s = "''rUSTED_gEAR mk2b''" and lang_code = "''de''"
        and kvs = "[(''id'', JStr ''wires''), (''name'', JStr ''Wires'')]"]
      get_localized_name_resolution [where dm = "\<lparr>items = [(''Arc Alloy'', example_item)],
        hideout_data = [], project_data = JList [], quest_data = [], user_progress = JObj [],
        id_to_item_map = [(JStr ''arc_alloy'', example_item)]\<rparr>"
        and s = "''arc_alloy''" and lang_code = "''de''" and kvs = "[]"]
    by (simp add: t a example_item_def build_id_to_item_map_def map_item_id_def dict_get_def
        py_getitem_def names_is_table_def localized_name_spec_def)
qed

subsection \<open>Hideout requirements\<close>

lemma fold_err_append:
  assumes "\<And>x acc. x \<in> set xs \<Longrightarrow> f x acc = Inr (acc @ g x)"
  shows "fold_err f xs acc = Inr (acc @ concat (map g xs))"
  using assms by (induction xs arbitrary: acc) simp_all

lemma py_eq_JStr [simp]: "py_eq a (JStr s) = (a = JStr s)"
  by (cases a) (auto split: json.splits)

lemma dict_get_jget:
  "is_dict d \<Longrightarrow> hashable k \<Longrightarrow> dict_get d k dflt = Inr (jget d k dflt)"
  by (cases d; cases k) (simp_all add: is_dict_def dict_get_def jget_def)

lemma is_id_hashable: "is_id k \<Longrightarrow> hashable k"
  by (cases k) (simp_all add: is_id_def)

lemma is_dict_of_jget:
  assumes "is_dict_of p d" and "p dflt"
  shows "p (jget d k dflt)"
proof (cases d)
  case (JObj kvs)
  show ?thesis
  proof (cases k)
    case (JStr s)
    show ?thesis
    proof (cases "map_of kvs s")
      case None
      then show ?thesis using JObj JStr assms(2) by (simp add: jget_def)
    next
      case (Some v)
      then have "(s, v) \<in> set kvs" by (rule map_of_SomeD)
      then have "p v" using assms(1) JObj by (auto simp: is_dict_of_def list_all_iff)
      then show ?thesis using JObj JStr Some by (simp add: jget_def)
    qed
  qed (use JObj assms(2) in \<open>simp_all add: jget_def\<close>)
qed (use assms(2) in \<open>simp_all add: jget_def\<close>)

lemma is_dict_of_is_dict: "is_dict_of p d \<Longrightarrow> is_dict d"
  by (cases d) (simp_all add: is_dict_of_def is_dict_def)

lemma is_dict_of_empty [simp]: "is_dict_of p (JObj [])"
  by (simp add: is_dict_of_def)

lemma is_int_int_at: "is_int (jget d k (JInt 0)) \<Longrightarrow> jget d k (JInt 0) = JInt (int_at d k)"
  by (cases "jget d k (JInt 0)") (simp_all add: is_int_def int_at_def)

lemma is_list_of_list_at:
  "is_list_of p (jget d k (JList [])) \<Longrightarrow>
   jget d k (JList []) = JList (list_at d k) \<and> list_all p (list_at d k)"
  by (cases "jget d k (JList [])") (simp_all add: is_list_of_def list_at_def)

lemma py_sub_ints [simp]: "py_sub (JInt a) (JInt b) = Inr (a - b)"
  by (simp add: py_sub_def)

lemma hideout_requirement_entry:
  assumes req: "wf_requirement req"
    and inv: "is_dict_of (is_dict_of (is_dict_of is_int)) h_inv"
    and sid: "is_id sid"
  shows "hideout_requirement repr (JStr tid) h_inv sid sname (JInt lvl) req_type req results
     = Inr (results @ requirement_entry (py_str repr sname @ '' (Lvl '' @ str_of_int lvl) req_type
         (jget (jget h_inv sid (JObj [])) (JStr (str_of_int lvl)) (JObj [])) tid req)"
proof -
  let ?by_level = "jget h_inv sid (JObj [])"
  let ?counts = "jget ?by_level (JStr (str_of_int lvl)) (JObj [])"
  have d: "is_dict req" and q: "jget req (JStr ''quantity'') (JInt 0) = JInt (int_at req (JStr ''quantity''))"
    using req by (auto simp: wf_requirement_def intro: is_int_int_at)
  have g1: "dict_get req (JStr ''itemId'') JNull = Inr (jget req (JStr ''itemId'') JNull)"
    and g2: "dict_get req (JStr ''quantity'') (JInt 0) = Inr (JInt (int_at req (JStr ''quantity'')))"
    using d q by (simp_all add: dict_get_jget)
  have bl: "is_dict_of (is_dict_of is_int) ?by_level"
    using inv by (rule is_dict_of_jget) simp
  then have cs: "is_dict_of is_int ?counts"
    by (rule is_dict_of_jget) simp
  then have "is_int (jget ?counts (JStr tid) (JInt 0))"
    by (rule is_dict_of_jget) (simp add: is_int_def)
  then have o: "jget ?counts (JStr tid) (JInt 0) = JInt (int_at ?counts (JStr tid))"
    by (rule is_int_int_at)
  have g3: "dict_get h_inv sid (JObj []) = Inr ?by_level"
    using inv sid by (simp add: dict_get_jget is_dict_of_is_dict is_id_hashable)
  have g4: "dict_get ?by_level (JStr (str_of_int lvl)) (JObj []) = Inr ?counts"
    using bl by (simp add: dict_get_jget is_dict_of_is_dict)
  have g5: "dict_get ?counts (JStr tid) (JInt 0) = Inr (JInt (int_at ?counts (JStr tid)))"
    using cs o by (simp add: dict_get_jget is_dict_of_is_dict)
  show ?thesis
    by (simp add: hideout_requirement_def requirement_entry_def g1 g2 g3 g4 g5 Let_def)
qed

lemma wf_tier_parts:
  assumes "wf_tier number tier"
  shows "dict_get tier (JStr number) (JInt 0) = Inr (JInt (int_at tier (JStr number)))"
    and "dict_get tier (JStr ''requirementItemIds'') (JList [])
          = Inr (JList (list_at tier (JStr ''requirementItemIds'')))"
    and "list_all wf_requirement (list_at tier (JStr ''requirementItemIds''))"
proof -
  have d: "is_dict tier" and n: "jget tier (JStr number) (JInt 0) = JInt (int_at tier (JStr number))"
    using assms by (auto simp: wf_tier_def intro: is_int_int_at)
  have l: "jget tier (JStr ''requirementItemIds'') (JList [])
        = JList (list_at tier (JStr ''requirementItemIds''))
      \<and> list_all wf_requirement (list_at tier (JStr ''requirementItemIds''))"
    using assms by (intro is_list_of_list_at) (simp add: wf_tier_def)
  show "dict_get tier (JStr number) (JInt 0) = Inr (JInt (int_at tier (JStr number)))"
    using d n by (simp add: dict_get_jget)
  show "dict_get tier (JStr ''requirementItemIds'') (JList [])
      = Inr (JList (list_at tier (JStr ''requirementItemIds'')))"
    using d l by (simp add: dict_get_jget)
  show "list_all wf_requirement (list_at tier (JStr ''requirementItemIds''))"
    using l by simp
qed

lemma py_le_ints [simp]: "py_le (JInt a) (JInt b) = Inr (a \<le> b)"
  by simp

lemma py_add1_int [simp]: "py_add1 (JInt a) = Inr (a + 1)"
  by (simp add: py_add1_def)

lemma py_iter_list [simp]: "py_iter (JList xs) = Inr xs"
  by (simp add: py_iter_def)

lemma hideout_level_entries:
  assumes lvl: "wf_tier ''level'' lvl_info"
    and inv: "is_dict_of (is_dict_of (is_dict_of is_int)) h_inv"
    and sid: "is_id sid"
  shows "hideout_level repr (JStr tid) h_inv sid sname (JInt cur) lvl_info results
     = Inr (results @
         (let lvl = int_at lvl_info (JStr ''level'') in
          if lvl > cur then
            concat (map
              (requirement_entry (py_str repr sname @ '' (Lvl '' @ str_of_int lvl)
                 (if lvl = cur + 1 then ''next'' else ''future'')
                 (jget (jget h_inv sid (JObj [])) (JStr (str_of_int lvl)) (JObj [])) tid)
              (list_at lvl_info (JStr ''requirementItemIds'')))
          else []))"
proof -
  let ?lvl = "int_at lvl_info (JStr ''level'')"
  let ?rs = "list_at lvl_info (JStr ''requirementItemIds'')"
  note p = wf_tier_parts [OF lvl]
  show ?thesis
  proof (cases "?lvl \<le> cur")
    case True
    then show ?thesis by (simp add: hideout_level_def p Let_def)
  next
    case False
    have "fold_err (hideout_requirement repr (JStr tid) h_inv sid sname (JInt ?lvl)
            (if ?lvl = cur + 1 then ''next'' else ''future'')) ?rs results
        = Inr (results @ concat (map
            (requirement_entry (py_str repr sname @ '' (Lvl '' @ str_of_int ?lvl)
               (if ?lvl = cur + 1 then ''next'' else ''future'')
               (jget (jget h_inv sid (JObj [])) (JStr (str_of_int ?lvl)) (JObj [])) tid) ?rs))"
      using p(3) inv sid
      by (intro fold_err_append hideout_requirement_entry) (simp_all add: list_all_iff)
    then show ?thesis
      using False by (simp add: hideout_level_def p Let_def eq_commute)
  qed
qed


lemma hideout_station_entries:
  assumes st: "wf_station progress station"
    and pr: "is_dict progress"
    and inv: "is_dict_of (is_dict_of (is_dict_of is_int)) h_inv"
  shows "hideout_station repr (JStr tid) progress h_inv station results
     = Inr (results @
         tier_entries ''level''
           (\<lambda>lvl. py_str repr (jget station (JStr ''name'') JNull) @ '' (Lvl '' @ str_of_int lvl)
           (int_at progress (jget station (JStr ''id'') JNull))
           (\<lambda>lvl. jget (jget h_inv (jget station (JStr ''id'') JNull) (JObj []))
              (JStr (str_of_int lvl)) (JObj []))
           tid (list_at station (JStr ''levels'')))"
proof -
  let ?sid = "jget station (JStr ''id'') JNull"
  let ?ls = "list_at station (JStr ''levels'')"
  have d: "is_dict station" and sid: "is_id ?sid"
    and cur: "jget progress ?sid (JInt 0) = JInt (int_at progress ?sid)"
    using st by (auto simp: wf_station_def intro: is_int_int_at)
  have l: "jget station (JStr ''levels'') (JList []) = JList ?ls \<and> list_all (wf_tier ''level'') ?ls"
    using st by (intro is_list_of_list_at) (simp add: wf_station_def)
  have g: "dict_get station (JStr ''id'') JNull = Inr ?sid"
    "dict_get station (JStr ''name'') JNull = Inr (jget station (JStr ''name'') JNull)"
    "dict_get station (JStr ''levels'') (JList []) = Inr (JList ?ls)"
    "dict_get progress ?sid (JInt 0) = Inr (JInt (int_at progress ?sid))"
    using d l pr sid cur by (simp_all add: dict_get_jget is_id_hashable)
  have "fold_err (hideout_level repr (JStr tid) h_inv ?sid (jget station (JStr ''name'') JNull)
          (JInt (int_at progress ?sid))) ?ls results
      = Inr (results @
          tier_entries ''level''
            (\<lambda>lvl. py_str repr (jget station (JStr ''name'') JNull) @ '' (Lvl '' @ str_of_int lvl)
            (int_at progress ?sid)
            (\<lambda>lvl. jget (jget h_inv ?sid (JObj [])) (JStr (str_of_int lvl)) (JObj []))
            tid ?ls)"
    unfolding tier_entries_def using l inv sid
    by (intro fold_err_append hideout_level_entries) (simp_all add: list_all_iff)
  then show ?thesis
    by (simp add: hideout_station_def g)
qed

text \<open>
  Claim C1. The target item is found under the name and has a string id; the progress
  document and the stations are well formed. Then \<^verbatim>\<open>find_hideout_requirements\<close> returns, and
  its result is the list the specification describes: station by station in declaration
  order, level by level as declared, only levels strictly above the current level of the
  station, an entry for a requirement of the target item exactly when required minus owned is
  positive, classed \<open>next\<close> when the level is the current level plus one and \<open>future\<close>
  otherwise.
\<close>

theorem find_hideout_requirements_spec:
  assumes item: "map_of (items dm) item_name = Some (JObj item)"
    and tid: "map_of item ''id'' = Some (JStr tid)"
    and wf: "wf_hideout (user_progress dm) (hideout_data dm)"
  shows "find_hideout_requirements repr dm item_name
     = Inr (hideout_requirements_spec repr (user_progress dm) (hideout_data dm) tid)"
proof -
  let ?p = "user_progress dm"
  let ?h = "jget ?p (JStr ''hideout_inventory'') (JObj [])"
  have ne: "item \<noteq> []" using tid by auto
  have pr: "is_dict ?p" and inv: "is_dict_of (is_dict_of (is_dict_of is_int)) ?h"
    and sts: "list_all (wf_station ?p) (hideout_data dm)"
    using wf by (simp_all add: wf_hideout_def)
  have "fold_err (hideout_station repr (JStr tid) ?p ?h) (hideout_data dm) []
      = Inr ([] @ concat (map (hideout_entries repr ?p tid) (hideout_data dm)))"
    using sts pr inv
    by (intro fold_err_append) (simp add: hideout_station_entries hideout_entries_def list_all_iff Let_def)
  then show ?thesis
    using item tid ne pr
    by (simp add: find_hideout_requirements_def get_item_by_name_def py_contains_str_def
        py_getitem_def dict_get_jget hideout_requirements_spec_def)
qed

theorem find_hideout_requirements_spec_witness:
  "find_hideout_requirements (\<lambda>j. []) example_manager ''ARC-Legierung''
     = Inr [(''Workbench (Lvl 3): x6'', ''next''), (''Workbench (Lvl 5): x7'', ''future'')]"
proof -
  have i: "map_of (items example_manager) ''ARC-Legierung''
      = Some (JObj [(''id'', JStr ''arc_alloy''), (''name'', JStr ''Arc Alloy''),
          (''names'', JObj [(''en'', JStr ''Arc Alloy''), (''de'', JStr ''ARC-Legierung'')])])"
    by (simp add: example_manager_def example_item_def)
  have w: "wf_hideout (user_progress example_manager) (hideout_data example_manager)"
    by code_simp
  have r: "hideout_requirements_spec (\<lambda>j. []) (user_progress example_manager)
      (hideout_data example_manager) ''arc_alloy''
      = [(''Workbench (Lvl 3): x6'', ''next''), (''Workbench (Lvl 5): x7'', ''future'')]"
    by code_simp
  show ?thesis
    using find_hideout_requirements_spec [OF i _ w, of "''arc_alloy''" "\<lambda>j. []"] r by simp
qed

subsection \<open>Project requirements\<close>

lemma project_requirement_entry:
  assumes req: "wf_requirement req"
    and inv: "is_dict_of (is_dict_of is_int) inventory"
  shows "project_requirement repr (JStr tid) inventory pname (JInt pnum) req_type req results
     = Inr (results @ requirement_entry (py_str repr pname @ '' (Ph'' @ str_of_int pnum) req_type
         (jget inventory (JStr (str_of_int pnum)) (JObj [])) tid req)"
proof -
  let ?counts = "jget inventory (JStr (str_of_int pnum)) (JObj [])"
  have d: "is_dict req" and q: "jget req (JStr ''quantity'') (JInt 0) = JInt (int_at req (JStr ''quantity''))"
    using req by (auto simp: wf_requirement_def intro: is_int_int_at)
  have g1: "dict_get req (JStr ''itemId'') JNull = Inr (jget req (JStr ''itemId'') JNull)"
    and g2: "dict_get req (JStr ''quantity'') (JInt 0) = Inr (JInt (int_at req (JStr ''quantity'')))"
    using d q by (simp_all add: dict_get_jget)
  have cs: "is_dict_of is_int ?counts"
    using inv by (rule is_dict_of_jget) simp
  then have "is_int (jget ?counts (JStr tid) (JInt 0))"
    by (rule is_dict_of_jget) (simp add: is_int_def)
  then have o: "jget ?counts (JStr tid) (JInt 0) = JInt (int_at ?counts (JStr tid))"
    by (rule is_int_int_at)
  have g4: "dict_get inventory (JStr (str_of_int pnum)) (JObj []) = Inr ?counts"
    using inv by (simp add: dict_get_jget is_dict_of_is_dict)
  have g5: "dict_get ?counts (JStr tid) (JInt 0) = Inr (JInt (int_at ?counts (JStr tid)))"
    using cs o by (simp add: dict_get_jget is_dict_of_is_dict)
  show ?thesis
    by (simp add: project_requirement_def requirement_entry_def g1 g2 g4 g5 Let_def)
qed

lemma project_phase_entries:
  assumes ph: "wf_tier ''phase'' phase"
    and inv: "is_dict_of (is_dict_of is_int) inventory"
  shows "project_phase repr (JStr tid) inventory pname (JInt cur) phase results
     = Inr (results @
         (let pnum = int_at phase (JStr ''phase'') in
          if pnum > cur then
            concat (map
              (requirement_entry (py_str repr pname @ '' (Ph'' @ str_of_int pnum)
                 (if pnum = cur + 1 then ''next'' else ''future'')
                 (jget inventory (JStr (str_of_int pnum)) (JObj [])) tid)
              (list_at phase (JStr ''requirementItemIds'')))
          else []))"
proof -
  let ?pnum = "int_at phase (JStr ''phase'')"
  let ?rs = "list_at phase (JStr ''requirementItemIds'')"
  note p = wf_tier_parts [OF ph]
  show ?thesis
  proof (cases "?pnum \<le> cur")
    case True
    then show ?thesis by (simp add: project_phase_def p Let_def)
  next
    case False
    have "fold_err (project_requirement repr (JStr tid) inventory pname (JInt ?pnum)
            (if ?pnum = cur + 1 then ''next'' else ''future'')) ?rs results
        = Inr (results @ concat (map
            (requirement_entry (py_str repr pname @ '' (Ph'' @ str_of_int ?pnum)
               (if ?pnum = cur + 1 then ''next'' else ''future'')
               (jget inventory (JStr (str_of_int ?pnum)) (JObj [])) tid) ?rs))"
      using p(3) inv
      by (intro fold_err_append project_requirement_entry) (simp_all add: list_all_iff)
    then show ?thesis
      using False by (simp add: project_phase_def p Let_def eq_commute)
  qed
qed

lemma display_name_string: "display_name isspace (JStr s) = Inr (project_display_name isspace (JStr s))"
  by (simp add: display_name_def project_display_name_def py_contains_str_def)

lemma project_entry_entries:
  assumes pj: "wf_project progress proj"
    and pp: "is_dict (jget progress (JStr ''projects'') (JObj []))"
  shows "project_entry isspace repr (JStr tid) (jget progress (JStr ''projects'') (JObj [])) proj results
     = Inr (results @ project_entries isspace repr progress tid proj)"
proof -
  let ?pid = "jget proj (JStr ''id'') JNull"
  let ?prog = "project_progress progress proj"
  let ?cur = "int_at ?prog (JStr ''completed_phase'')"
  let ?inv = "jget ?prog (JStr ''inventory'') (JObj [])"
  let ?ps = "list_at proj (JStr ''phases'')"
  let ?pname = "project_display_name isspace (jget proj (JStr ''name'') JNull)"
  have d: "is_dict proj" and pid: "is_id ?pid" and dp: "is_dict ?prog"
    and inv: "is_dict_of (is_dict_of is_int) ?inv"
    and cur: "jget ?prog (JStr ''completed_phase'') (JInt 0) = JInt ?cur"
    using pj by (auto simp: wf_project_def intro: is_int_int_at)
  obtain s where nm: "jget proj (JStr ''name'') JNull = JStr s"
    using pj by (cases "jget proj (JStr ''name'') JNull") (simp_all add: wf_project_def is_str_def)
  have l: "jget proj (JStr ''phases'') (JList []) = JList ?ps \<and> list_all (wf_tier ''phase'') ?ps"
    using pj by (intro is_list_of_list_at) (simp add: wf_project_def)
  have g: "dict_get proj (JStr ''id'') JNull = Inr ?pid"
    "dict_get proj (JStr ''name'') JNull = Inr (JStr s)"
    "dict_get proj (JStr ''phases'') (JList []) = Inr (JList ?ps)"
    "dict_get (jget progress (JStr ''projects'') (JObj [])) ?pid
        (JObj [(''completed_phase'', JInt 0), (''inventory'', JObj [])]) = Inr ?prog"
    "dict_get ?prog (JStr ''completed_phase'') (JInt 0) = Inr (JInt ?cur)"
    "dict_get ?prog (JStr ''inventory'') (JObj []) = Inr ?inv"
    using d l pp pid dp cur nm
    by (simp_all add: dict_get_jget is_id_hashable project_progress_def)
  have "fold_err (project_phase repr (JStr tid) ?inv ?pname (JInt ?cur)) ?ps results
      = Inr (results @
          tier_entries ''phase'' (\<lambda>pnum. py_str repr ?pname @ '' (Ph'' @ str_of_int pnum) ?cur
            (\<lambda>pnum. jget ?inv (JStr (str_of_int pnum)) (JObj [])) tid ?ps)"
    unfolding tier_entries_def using l inv
    by (intro fold_err_append project_phase_entries) (simp_all add: list_all_iff)
  then show ?thesis
    by (simp add: project_entry_def g display_name_string nm project_entries_def Let_def)
qed

text \<open>
  On well-formed projects (every project has a string as its name) the resolver computes the
  list of the specification, the computation of the hideout resolver (\<open>tier_entries\<close>) on the
  phases of each project; a name that resolves to no item, and an item without an \<open>id\<close> key,
  yield the empty list whatever the project data are.
\<close>

lemma project_requirements_well_formed:
  "(map_of (items dm) item_name = None
      \<or> (map_of (items dm) item_name = Some (JObj item) \<and> map_of item ''id'' = None)
     \<longrightarrow> find_project_requirements isspace repr dm item_name = Inr [])
   \<and> (map_of (items dm) item_name = Some (JObj item) \<and> map_of item ''id'' = Some (JStr tid)
      \<and> project_data dm = JList projects \<and> wf_projects (user_progress dm) projects
     \<longrightarrow> find_project_requirements isspace repr dm item_name
           = Inr (project_requirements_spec isspace repr (user_progress dm) projects tid))"
proof (intro conjI impI)
  assume "map_of (items dm) item_name = None
      \<or> (map_of (items dm) item_name = Some (JObj item) \<and> map_of item ''id'' = None)"
  then show "find_project_requirements isspace repr dm item_name = Inr []"
    by (auto simp: find_project_requirements_def get_item_by_name_def py_contains_str_def Let_def)
next
  assume a: "map_of (items dm) item_name = Some (JObj item) \<and> map_of item ''id'' = Some (JStr tid)
      \<and> project_data dm = JList projects \<and> wf_projects (user_progress dm) projects"
  let ?p = "user_progress dm"
  have ne: "item \<noteq> []" using a by auto
  have pr: "is_dict ?p" and pp: "is_dict (jget ?p (JStr ''projects'') (JObj []))"
    and ps: "list_all (wf_project ?p) projects"
    using a by (simp_all add: wf_projects_def)
  have "fold_err (project_entry isspace repr (JStr tid) (jget ?p (JStr ''projects'') (JObj []))) projects []
      = Inr ([] @ concat (map (project_entries isspace repr ?p tid) projects))"
    using ps pp
    by (intro fold_err_append) (simp add: project_entry_entries list_all_iff)
  then show "find_project_requirements isspace repr dm item_name
      = Inr (project_requirements_spec isspace repr ?p projects tid)"
    using a ne pr
    by (simp add: find_project_requirements_def get_item_by_name_def py_contains_str_def
        py_getitem_def dict_get_jget project_requirements_spec_def)
qed

lemma project_requirements_example:
  "find_project_requirements latin1_isspace (\<lambda>j. []) example_manager ''Rusted Gear'' = Inr []
   \<and> find_project_requirements latin1_isspace (\<lambda>j. []) example_manager ''Arc Alloy''
     = Inr [(''Expedition (Ph2): x5'', ''next''), (''Expedition (Ph3): x3'', ''future'')]"
proof -
  have n: "map_of (items example_manager) ''Rusted Gear'' = None"
    by (simp add: example_manager_def)
  have i: "map_of (items example_manager) ''Arc Alloy''
      = Some (JObj [(''id'', JStr ''arc_alloy''), (''name'', JStr ''Arc Alloy''),
          (''names'', JObj [(''en'', JStr ''Arc Alloy''), (''de'', JStr ''ARC-Legierung'')])])"
    by (simp add: example_manager_def example_item_def)
  have p: "project_data example_manager = JList [example_project]"
    by (simp add: example_manager_def)
  have w: "wf_projects (user_progress example_manager) [example_project]"
    by code_simp
  have r: "project_requirements_spec latin1_isspace (\<lambda>j. []) (user_progress example_manager) [example_project]
      ''arc_alloy''
      = [(''Expedition (Ph2): x5'', ''next''), (''Expedition (Ph3): x3'', ''future'')]"
    by code_simp
  show ?thesis
    using project_requirements_well_formed [where dm = example_manager and item_name = "''Rusted Gear''"
        and isspace = latin1_isspace and repr = "\<lambda>j. []" and item = "[]" and tid = "[]"
        and projects = "[]"]
      project_requirements_well_formed [where dm = example_manager and item_name = "''Arc Alloy''"
        and isspace = latin1_isspace and repr = "\<lambda>j. []" and tid = "''arc_alloy''"
        and projects = "[example_project]"
        and item = "[(''id'', JStr ''arc_alloy''), (''name'', JStr ''Arc Alloy''),
          (''names'', JObj [(''en'', JStr ''Arc Alloy''), (''de'', JStr ''ARC-Legierung'')])]"]
      n i p w r
    by simp
qed

text \<open>
  Claim C8 at a concrete input: the project document holds a project record without a name,
  which \<^verbatim>\<open>__init__\<close> accepts as it is, and the item is found and has an id. The resolver
  raises \<^verbatim>\<open>TypeError\<close> at \<^verbatim>\<open>'Project' in pname\<close>, where \<open>pname\<close> is \<^verbatim>\<open>None\<close>. The hideout
  resolver, given a station without a name, returns its entries, labelled \<open>None\<close>.
\<close>

theorem find_project_requirements_nameless_project:
  "init_project example_nameless_project = Inr example_nameless_project
   \<and> find_project_requirements latin1_isspace (\<lambda>j. []) example_nameless_manager ''Arc Alloy''
       = Inl TypeError
   \<and> find_hideout_requirements (\<lambda>j. []) example_nameless_manager ''Arc Alloy''
       = Inr [(''None (Lvl 1): x2'', ''next'')]"
  by code_simp

subsection \<open>The item index\<close>

lemma index_name_map:
  "map_of (index_name isspace repr item_object e choices) k
     = (if truthy (snd e) \<and> k = strip isspace (py_str repr (snd e)) then Some item_object
        else map_of choices k)"
  by (simp add: index_name_def update_conv')

lemma fold_index_name:
  "map_of (fold (index_name isspace repr item_object) name_obj choices) k
     = (if k \<in> indexed_names isspace repr name_obj then Some item_object else map_of choices k)"
proof (induction name_obj arbitrary: choices)
  case Nil
  then show ?case by (simp add: indexed_names_def)
next
  case (Cons e es)
  have split: "indexed_names isspace repr (e # es)
      = (if truthy (snd e) then {strip isspace (py_str repr (snd e))} else {}) \<union> indexed_names isspace repr es"
    by (cases e) (auto simp: indexed_names_def)
  show ?case
    by (simp add: Cons.IH split index_name_map)
qed

text \<open>What a file adds to the index does not depend on the index it is added to.\<close>

lemma load_item_file_map:
  "map_of (fst (load_item_file isspace repr entry acc)) k
     = (case map_of (fst (load_item_file isspace repr entry ([], []))) k of
          Some v \<Rightarrow> Some v | None \<Rightarrow> map_of (fst acc) k)"
  by (auto simp: load_item_file_def fold_index_name update_conv' Let_def
      split: sum.splits json.splits option.splits)

lemma fold_load_item_file_map:
  "map_of (fst (fold (load_item_file isspace repr) entries acc)) k
     = (case map_of (fst (fold (load_item_file isspace repr) entries ([], []))) k of
          Some v \<Rightarrow> Some v | None \<Rightarrow> map_of (fst acc) k)"
proof (induction entries arbitrary: acc)
  case Nil
  then show ?case by simp
next
  case (Cons e es)
  show ?case
    using Cons.IH [of "load_item_file isspace repr e acc"] Cons.IH [of "load_item_file isspace repr e ([], [])"]
      load_item_file_map [of isspace repr e acc k]
    by (simp split: option.splits)
qed

lemma load_item_file_indexes:
  assumes "ends_with ''.json'' filename"
    and "map_of item_fields ''name'' = Some (JObj name_obj)"
    and "map_of name_obj ''en'' = Some en"
    and "(lang, name_val) \<in> set name_obj" and "truthy name_val"
  shows "map_of (fst (load_item_file isspace repr (filename, Inr (JObj item_fields)) acc))
           (strip isspace (py_str repr name_val)) = Some (canonical_item isspace repr item_fields name_obj en)"
proof -
  have "strip isspace (py_str repr name_val) \<in> indexed_names isspace repr name_obj"
    using assms(4,5) by (force simp: indexed_names_def)
  then show ?thesis
    using assms(1-3) by (simp add: load_item_file_def fold_index_name canonical_item_def)
qed

text \<open>
  Claim C4, amended. A record of the listing, in a file whose name ends in \<open>.json\<close>, has a name
  table with an \<open>en\<close> entry. For every value of the table that is not empty, the index holds
  the item under that value stripped of surrounding whitespace, unless a record loaded later
  is indexed under the same name. The item is the same for every language: the record with
  \<open>name\<close> set to the stripped \<open>en\<close> value and \<open>names\<close> set to the whole table.
\<close>

theorem load_items_indexes_every_name:
  assumes "entries = before @ (filename, Inr (JObj item_fields)) # later"
    and "ends_with ''.json'' filename"
    and "map_of item_fields ''name'' = Some (JObj name_obj)"
    and "map_of name_obj ''en'' = Some en"
    and "(lang, name_val) \<in> set name_obj" and "truthy name_val"
    and "load_items_from_dir isspace repr (Listing later) = Inr (later_choices, later_log)"
    and "map_of later_choices (strip isspace (py_str repr name_val)) = None"
  shows "\<exists>choices log.
     load_items_from_dir isspace repr (Listing entries) = Inr (choices, log)
     \<and> map_of choices (strip isspace (py_str repr name_val)) = Some (canonical_item isspace repr item_fields name_obj en)
     \<and> py_getitem (canonical_item isspace repr item_fields name_obj en) ''name''
         = Inr (JStr (strip isspace (py_str repr en)))
     \<and> py_getitem (canonical_item isspace repr item_fields name_obj en) ''names'' = Inr (JObj name_obj)"
proof -
  let ?f = "load_item_file isspace repr"
  let ?k = "strip isspace (py_str repr name_val)"
  let ?mid = "?f (filename, Inr (JObj item_fields)) (fold ?f before ([], []))"
  have l: "fst (fold ?f later ([], [])) = later_choices"
    using assms(7) by (simp add: load_items_from_dir_def)
  have "fold ?f entries ([], []) = fold ?f later ?mid"
    by (simp add: assms(1))
  then have "map_of (fst (fold ?f entries ([], []))) ?k = map_of (fst ?mid) ?k"
    using fold_load_item_file_map [of isspace repr later ?mid ?k] l assms(8) by simp
  also have "\<dots> = Some (canonical_item isspace repr item_fields name_obj en)"
    using assms(2-6) by (rule load_item_file_indexes)
  finally have "map_of (fst (fold ?f entries ([], []))) ?k
      = Some (canonical_item isspace repr item_fields name_obj en)" .
  moreover have "py_getitem (canonical_item isspace repr item_fields name_obj en) ''name''
         = Inr (JStr (strip isspace (py_str repr en)))"
    "py_getitem (canonical_item isspace repr item_fields name_obj en) ''names'' = Inr (JObj name_obj)"
    by (simp_all add: canonical_item_def py_getitem_def update_conv')
  ultimately show ?thesis
    by (cases "fold ?f entries ([], [])") (simp add: load_items_from_dir_def)
qed

theorem load_items_indexes_every_name_witness:
  "\<exists>choices log.
     load_items_from_dir latin1_isspace (\<lambda>j. []) example_items_dir = Inr (choices, log)
     \<and> map_of choices ''Arc Alloy'' = Some example_alloy_indexed
     \<and> py_getitem example_alloy_indexed ''name'' = Inr (JStr ''Arc Alloy'')"
proof -
  have l: "load_items_from_dir latin1_isspace (\<lambda>j. []) (Listing
      [(''notes.txt'', Inl OSError),
       (''alloy_b.json'', Inr (JObj [(''id'', JStr ''alloy_b''),
          (''name'', JObj [(''en'', JStr ''Legierung'')])]))])
      = Inr ([(''Legierung'', example_alloy_b_indexed)], [])"
    by (simp add: load_items_from_dir_def load_item_file_def ends_with_def
        index_name_def strip_def latin1_isspace_def example_alloy_b_indexed_def Let_def)
  have s: "strip latin1_isspace '' Arc Alloy '' = ''Arc Alloy''"
    by (simp add: strip_def latin1_isspace_def)
  have c: "canonical_item latin1_isspace (\<lambda>j. [])
      [(''id'', JStr ''arc_alloy''),
       (''name'', JObj [(''en'', JStr '' Arc Alloy ''), (''de'', JStr ''Legierung'')])]
      [(''en'', JStr '' Arc Alloy ''), (''de'', JStr ''Legierung'')] (JStr '' Arc Alloy '')
      = example_alloy_indexed"
    by (simp add: canonical_item_def example_alloy_indexed_def s)
  show ?thesis
    using load_items_indexes_every_name [where isspace = latin1_isspace and repr = "\<lambda>j. []"
        and entries = "[(''arc_alloy.json'', Inr (JObj [(''id'', JStr ''arc_alloy''),
            (''name'', JObj [(''en'', JStr '' Arc Alloy ''), (''de'', JStr ''Legierung'')])])),
          (''notes.txt'', Inl OSError),
          (''alloy_b.json'', Inr (JObj [(''id'', JStr ''alloy_b''),
            (''name'', JObj [(''en'', JStr ''Legierung'')])]))]"
        and before = "[]" and filename = "''arc_alloy.json''"
        and item_fields = "[(''id'', JStr ''arc_alloy''),
            (''name'', JObj [(''en'', JStr '' Arc Alloy ''), (''de'', JStr ''Legierung'')])]"
        and later = "[(''notes.txt'', Inl OSError),
          (''alloy_b.json'', Inr (JObj [(''id'', JStr ''alloy_b''),
            (''name'', JObj [(''en'', JStr ''Legierung'')])]))]"
        and name_obj = "[(''en'', JStr '' Arc Alloy ''), (''de'', JStr ''Legierung'')]"
        and en = "JStr '' Arc Alloy ''" and lang = "''en''" and name_val = "JStr '' Arc Alloy ''"
        and later_choices = "[(''Legierung'', example_alloy_b_indexed)]" and later_log = "[]"]
      l
    by (simp add: s c ends_with_def example_items_dir_def) blast
qed

text \<open>
  Claim C4, as stated, at a concrete directory. The first record declares the names
  \<open>'' Arc Alloy ''\<close> (English, with surrounding blanks) and \<open>Legierung\<close>; a record loaded later
  declares \<open>Legierung\<close> too. Looking the first item up by its declared English name finds
  nothing, looking it up by \<open>Legierung\<close> finds the other item, and its canonical name is not
  its \<open>en\<close> value.
\<close>

theorem load_items_lookup_counterexample:
  "load_items_from_dir latin1_isspace (\<lambda>j. []) example_items_dir
     = Inr ([(''Arc Alloy'', example_alloy_indexed), (''Legierung'', example_alloy_b_indexed)], [])
   \<and> map_of [(''Arc Alloy'', example_alloy_indexed), (''Legierung'', example_alloy_b_indexed)]
       '' Arc Alloy '' = None
   \<and> map_of [(''Arc Alloy'', example_alloy_indexed), (''Legierung'', example_alloy_b_indexed)]
       ''Legierung'' \<noteq> Some example_alloy_indexed
   \<and> py_getitem example_alloy_indexed ''name'' \<noteq> Inr (JStr '' Arc Alloy '')"
  by (simp add: load_items_from_dir_def example_items_dir_def load_item_file_def ends_with_def
      index_name_def strip_def latin1_isspace_def example_alloy_indexed_def example_alloy_b_indexed_def
      py_getitem_def Let_def)

subsection \<open>The quest view\<close>

lemma map_err_total:
  assumes "\<And>x. x \<in> set xs \<Longrightarrow> f x = Inr (g x)"
  shows "map_err f xs = Inr (map g xs)"
  using assms by (induction xs) simp_all

lemma filter_err_total:
  assumes "\<And>x. x \<in> set xs \<Longrightarrow> p x = Inr (q x)"
  shows "filter_err p xs = Inr (filter q xs)"
  using assms by (induction xs) simp_all

lemma insort_key_map:
  "insort_key f (g x) (map g ys) = map g (insort_key (\<lambda>y. f (g y)) x ys)"
  by (induction ys) simp_all

lemma sort_key_map: "sort_key f (map g xs) = map g (sort_key (\<lambda>y. f (g y)) xs)"
  by (induction xs) (simp_all add: insort_key_map)

lemma py_sorted_total:
  assumes "\<And>x. x \<in> set xs \<Longrightarrow> f x = Inr (k x)"
  shows "py_sorted f xs = Inr (sort_key k xs)"
proof -
  have z: "zip (map k xs) xs = map (\<lambda>x. (k x, x)) xs"
    by (induction xs) simp_all
  have "map snd (sort_key fst (zip (map k xs) xs)) = sort_key k xs"
    by (simp add: z sort_key_map comp_def)
  then show ?thesis
    using assms by (simp add: py_sorted_def map_err_total [where g = k])
qed

lemma insort_key_same_order:
  assumes "\<forall>y \<in> set ys. (f x \<le> f y) = (g x \<le> g y)"
  shows "insort_key f x ys = insort_key g x ys"
  using assms by (induction ys) simp_all

lemma sort_key_same_order:
  assumes "\<forall>x \<in> set xs. \<forall>y \<in> set xs. (f x \<le> f y) = (g x \<le> g y)"
  shows "sort_key f xs = sort_key g xs"
  using assms
proof (induction xs)
  case Nil
  then show ?case by simp
next
  case (Cons x xs)
  then have "sort_key f xs = sort_key g xs" by simp
  moreover have "insort_key f x (sort_key g xs) = insort_key g x (sort_key g xs)"
    using Cons.prems by (intro insort_key_same_order) simp
  ultimately show ?case by simp
qed

lemma quest_view_ok:
  assumes "wf_quest progress quest"
  shows "view_ok (quest_view progress quest)"
proof -
  from assms obtain copy where q: "quest = JObj copy"
    by (cases quest) (simp_all add: wf_quest_def is_dict_def)
  have n: "map_of (localize_name copy) ''id'' = map_of copy ''id''"
    by (simp add: localize_name_def update_conv' split: option.splits json.splits)
  from assms q obtain s where i: "map_of copy ''id'' = Some (JStr s)" and s: "s \<noteq> []"
    by (auto simp: wf_quest_def jget_def split: option.splits json.splits)
  from assms have b: "is_bool (jget (quest_entry progress quest) (JStr ''quest_completed'') (JBool False))"
    by (simp add: wf_quest_def)
  show ?thesis
    using n i s b
    by (simp add: view_ok_def quest_view_def q jget_def is_dict_def py_getitem_def update_conv')
qed

lemma quest_info_view:
  assumes wf: "wf_quest (JObj kvs) quest"
    and qs: "map_of kvs ''quests'' = Some quests" and dq: "is_dict quests"
  shows "quest_info (JObj kvs) quest all_quest_info
     = Inr (all_quest_info @ [quest_view (JObj kvs) quest])"
proof -
  from wf obtain copy where q: "quest = JObj copy"
    by (cases quest) (simp_all add: wf_quest_def is_dict_def)
  from wf q obtain s where i: "map_of copy ''id'' = Some (JStr s)" and s: "s \<noteq> []"
    by (auto simp: wf_quest_def jget_def split: option.splits json.splits)
  let ?info = "localize_name copy"
  let ?entry = "quest_entry (JObj kvs) quest"
  have e: "?entry = jget quests (JStr s) (JObj [])"
    using qs q i by (simp add: quest_entry_def jget_def)
  from wf q obtain original where
    o: "jget (JObj ?info) (JStr ''objectives'') (JList []) = JList original"
    by (cases "jget (JObj ?info) (JStr ''objectives'') (JList [])")
      (simp_all add: wf_quest_def is_list_def)
  then have o1: "(case map_of ?info ''objectives'' of None \<Rightarrow> JList [] | Some v \<Rightarrow> v) = JList original"
    and o2: "list_at (JObj ?info) (JStr ''objectives'') = original"
    by (simp_all add: jget_def list_at_def)
  have de: "is_dict ?entry"
    using wf by (simp add: wf_quest_def)
  have g1: "dict_get quest (JStr ''id'') JNull = Inr (JStr s)"
    "py_getitem (JObj kvs) ''quests'' = Inr quests"
    using q i qs by (simp_all add: dict_get_def py_getitem_def)
  have g2: "dict_get quests (JStr s) (JObj []) = Inr ?entry"
    "\<And>k d. dict_get ?entry (JStr k) d = Inr (jget ?entry (JStr k) d)"
    using dq de e by (simp_all add: dict_get_jget)
  note g = g1 g2
  show ?thesis
    by (simp add: quest_info_def s q o1 o2 g [unfolded q] quest_view_def Let_def)
qed

lemma list_ex_list_index: "list_ex (\<lambda>y. py_eq y x) xs \<longleftrightarrow> list_index xs x \<noteq> None"
  by (induction xs) simp_all

lemma order_index_list:
  "order_index (JList xs) q_id (Inr n)
     = Inr (case list_index xs q_id of Some i \<Rightarrow> i | None \<Rightarrow> n)"
  by (cases "list_index xs q_id")
    (simp_all add: order_index_def py_contains_def py_index_def list_ex_list_index)

lemma sort_key_full_view:
  assumes "view_ok q"
  shows "sort_key_full (JList xs) q
     = Inr (\<not> is_tracked q, custom_rank xs (length xs) q, if is_completed q then 1 else 0)"
proof -
  from assms obtain b where c: "jget q (JStr ''is_completed'') (JBool False) = JBool b"
    by (cases "jget q (JStr ''is_completed'') (JBool False)") (simp_all add: view_ok_def is_bool_def)
  show ?thesis
    using assms c
    by (simp add: sort_key_full_def view_ok_def py_len_def order_index_list custom_rank_def
        is_tracked_def is_completed_def)
qed

lemma sort_key_tracked_view:
  assumes "view_ok q"
  shows "sort_key_tracked (JList xs) q = Inr (custom_rank xs 999 q)"
  using assms by (simp add: sort_key_tracked_def view_ok_def order_index_list custom_rank_def)

lemma tracked_incomplete_view:
  assumes "view_ok q"
  shows "tracked_incomplete q = Inr (is_tracked q \<and> \<not> is_completed q)"
  using assms by (simp add: tracked_incomplete_def view_ok_def is_tracked_def is_completed_def)

lemma int_key_order:
  "((a, i, if c then 1 else 0 :: int) \<le> (a', i', if c' then 1 else 0))
     = ((a :: bool, i :: nat, c) \<le> (a', i', c'))"
  by (auto simp: less_eq_prod_def less_prod_def)

lemma ensure_quests_dict:
  assumes "is_dict progress"
  shows "\<exists>kvs. ensure_quests progress = JObj kvs
      \<and> map_of kvs ''quests'' = Some (jget progress (JStr ''quests'') (JObj []))
      \<and> jget (ensure_quests progress) (JStr ''quest_order'') (JList [])
          = jget progress (JStr ''quest_order'') (JList [])"
proof -
  from assms obtain kvs where p: "progress = JObj kvs"
    by (cases progress) (simp_all add: is_dict_def)
  show ?thesis
    by (cases "map_of kvs ''quests''") (simp_all add: p ensure_quests_def jget_def update_conv')
qed

lemma ensure_quests_step:
  assumes "is_dict progress"
  shows "ebind (py_contains_str ''quests'' progress) (\<lambda>present.
           ebind (if present then Inr progress else py_setitem progress ''quests'' (JObj [])) f)
         = f (ensure_quests progress)"
proof -
  from assms obtain kvs where p: "progress = JObj kvs"
    by (cases progress) (simp_all add: is_dict_def)
  show ?thesis
    by (simp add: p py_contains_str_def py_setitem_def ensure_quests_def)
qed

lemma quest_entry_ensure:
  assumes "is_dict progress"
  shows "quest_entry (ensure_quests progress) quest = quest_entry progress quest"
proof -
  from ensure_quests_dict [OF assms] obtain kvs where "ensure_quests progress = JObj kvs"
    and "map_of kvs ''quests'' = Some (jget progress (JStr ''quests'') (JObj []))"
    by blast
  then have "jget (ensure_quests progress) (JStr ''quests'') (JObj [])
      = jget progress (JStr ''quests'') (JObj [])"
    by (simp add: jget_def)
  then show ?thesis by (simp add: quest_entry_def)
qed

lemma fold_quest_info_views:
  assumes wf: "wf_quests progress quests"
  shows "fold_err (quest_info (ensure_quests progress)) quests []
     = Inr (map (quest_view progress) quests)"
proof -
  have d: "is_dict progress" and dq: "is_dict (jget progress (JStr ''quests'') (JObj []))"
    and qs: "list_all (wf_quest progress) quests"
    using wf by (simp_all add: wf_quests_def)
  from ensure_quests_dict [OF d] obtain kvs where e: "ensure_quests progress = JObj kvs"
    and m: "map_of kvs ''quests'' = Some (jget progress (JStr ''quests'') (JObj []))"
    by blast
  have qe: "quest_entry (JObj kvs) quest = quest_entry progress quest" for quest
    using quest_entry_ensure [OF d, of quest] by (simp add: e)
  have same: "wf_quest (JObj kvs) quest = wf_quest progress quest"
    "quest_view (JObj kvs) quest = quest_view progress quest" for quest
    by (simp_all add: qe wf_quest_def quest_view_def split: json.splits)
  have "fold_err (quest_info (JObj kvs)) quests [] = Inr ([] @ concat (map (\<lambda>q. [quest_view progress q]) quests))"
    using qs m dq
    by (intro fold_err_append) (simp add: quest_info_view same list_all_iff)
  also have "concat (map (\<lambda>q. [quest_view progress q]) quests) = map (quest_view progress) quests"
    by (induction quests) simp_all
  finally show ?thesis by (simp add: e)
qed

lemma get_filtered_quests_sorted:
  assumes wf: "wf_quests (user_progress dm) (quest_data dm)"
  shows "get_filtered_quests dm tracked_only
     = Inr (if tracked_only
            then sort_key (custom_rank (list_at (user_progress dm) (JStr ''quest_order'')) 999)
                   (filter (\<lambda>q. is_tracked q \<and> \<not> is_completed q)
                      (map (quest_view (user_progress dm)) (quest_data dm)))
            else sort_key (full_key (list_at (user_progress dm) (JStr ''quest_order'')))
                   (map (quest_view (user_progress dm)) (quest_data dm)),
            ensure_quests (user_progress dm))"
proof -
  let ?p = "user_progress dm"
  let ?views = "map (quest_view ?p) (quest_data dm)"
  let ?order = "list_at ?p (JStr ''quest_order'')"
  have d: "is_dict ?p" and qs: "list_all (wf_quest ?p) (quest_data dm)"
    and l: "is_list (jget ?p (JStr ''quest_order'') (JList []))"
    using wf by (simp_all add: wf_quests_def)
  have ok: "view_ok q" if "q \<in> set ?views" for q
    using that qs by (auto simp: list_all_iff quest_view_ok)
  from l have o: "jget ?p (JStr ''quest_order'') (JList []) = JList ?order"
    by (cases "jget ?p (JStr ''quest_order'') (JList [])") (simp_all add: is_list_def list_at_def)
  from ensure_quests_dict [OF d] have
    co: "dict_get (ensure_quests ?p) (JStr ''quest_order'') (JList []) = Inr (JList ?order)"
    using o by (auto simp: dict_get_jget is_dict_def)
  have full: "py_sorted (sort_key_full (JList ?order)) ?views
      = Inr (sort_key (\<lambda>q. (\<not> is_tracked q, custom_rank ?order (length ?order) q,
               if is_completed q then 1 else 0 :: int)) ?views)"
    by (rule py_sorted_total) (simp add: ok sort_key_full_view)
  have "sort_key (\<lambda>q. (\<not> is_tracked q, custom_rank ?order (length ?order) q,
               if is_completed q then 1 else 0 :: int)) ?views
      = sort_key (full_key ?order) ?views"
    by (rule sort_key_same_order) (simp add: full_key_def int_key_order)
  with full have full': "py_sorted (sort_key_full (JList ?order)) ?views
      = Inr (sort_key (full_key ?order) ?views)"
    by simp
  have filt: "filter_err tracked_incomplete ?views
      = Inr (filter (\<lambda>q. is_tracked q \<and> \<not> is_completed q) ?views)"
    by (rule filter_err_total) (simp add: ok tracked_incomplete_view)
  have tr: "py_sorted (sort_key_tracked (JList ?order))
        (filter (\<lambda>q. is_tracked q \<and> \<not> is_completed q) ?views)
      = Inr (sort_key (custom_rank ?order 999)
          (filter (\<lambda>q. is_tracked q \<and> \<not> is_completed q) ?views))"
    by (rule py_sorted_total) (simp add: ok sort_key_tracked_view)
  show ?thesis
    unfolding get_filtered_quests_def ensure_quests_step [OF d]
    by (simp add: fold_quest_info_views [OF wf] co full' filt tr)
qed

lemma full_key_precedes:
  "(full_key custom_order a \<le> full_key custom_order b) = quest_precedes custom_order a b"
  by (auto simp: full_key_def quest_precedes_def less_eq_prod_def less_prod_def Let_def)

lemma list_index_bound: "list_index xs x = Some i \<Longrightarrow> i < length xs"
  by (induction xs arbitrary: i) (auto split: if_splits)

lemma custom_rank_listed:
  "custom_rank custom_order (length custom_order) q < length custom_order
     \<longleftrightarrow> is_listed custom_order q"
  by (cases "list_index custom_order (jget q (JStr ''id'') JNull)")
    (auto simp: custom_rank_def is_listed_def list_ex_list_index dest: list_index_bound)

text \<open>
  Claim C5. On well-formed quests and progress (every quest has an id), the full list holds
  every quest once, it is ordered by the three keys in their precedence (tracked before
  untracked, then the rank in the custom order, then incomplete before completed), quests that
  agree on the three keys keep their encounter order, and among quests with the same tracked
  flag a quest that the custom order does not list comes after every listed one.
\<close>

theorem get_filtered_quests_full_list:
  assumes "wf_quests (user_progress dm) (quest_data dm)"
  shows "\<exists>result.
     get_filtered_quests dm False = Inr (result, ensure_quests (user_progress dm))
     \<and> mset result = mset (map (quest_view (user_progress dm)) (quest_data dm))
     \<and> sorted_wrt (quest_precedes (list_at (user_progress dm) (JStr ''quest_order''))) result
     \<and> (\<forall>k. filter (\<lambda>q. full_key (list_at (user_progress dm) (JStr ''quest_order'')) q = k) result
            = filter (\<lambda>q. full_key (list_at (user_progress dm) (JStr ''quest_order'')) q = k)
                (map (quest_view (user_progress dm)) (quest_data dm)))
     \<and> (\<forall>a b. is_listed (list_at (user_progress dm) (JStr ''quest_order'')) a
            \<and> \<not> is_listed (list_at (user_progress dm) (JStr ''quest_order'')) b
            \<and> is_tracked a = is_tracked b
          \<longrightarrow> quest_precedes (list_at (user_progress dm) (JStr ''quest_order'')) a b
              \<and> \<not> quest_precedes (list_at (user_progress dm) (JStr ''quest_order'')) b a)"
proof -
  let ?order = "list_at (user_progress dm) (JStr ''quest_order'')"
  let ?views = "map (quest_view (user_progress dm)) (quest_data dm)"
  let ?result = "sort_key (full_key ?order) ?views"
  have r: "get_filtered_quests dm False = Inr (?result, ensure_quests (user_progress dm))"
    using get_filtered_quests_sorted [OF assms, of False] by simp
  have "sorted (map (full_key ?order) ?result)"
    by (rule sorted_sort_key)
  then have s: "sorted_wrt (quest_precedes ?order) ?result"
    by (simp add: sorted_map full_key_precedes)
  have st: "\<forall>k. filter (\<lambda>q. full_key ?order q = k) ?result = filter (\<lambda>q. full_key ?order q = k) ?views"
    by (simp add: sort_key_stable)
  have un: "quest_precedes ?order a b \<and> \<not> quest_precedes ?order b a"
    if "is_listed ?order a" "\<not> is_listed ?order b" "is_tracked a = is_tracked b" for a b
  proof -
    have "custom_rank ?order (length ?order) a < length ?order"
      using that(1) by (simp add: custom_rank_listed)
    moreover have "custom_rank ?order (length ?order) b = length ?order"
      using that(2) by (simp add: custom_rank_def is_listed_def list_ex_list_index)
    ultimately show ?thesis
      using that(3) by (auto simp: quest_precedes_def Let_def)
  qed
  show ?thesis
    using r s st un by (intro exI [of _ ?result]) (simp add: mset_sort)
qed

theorem get_filtered_quests_full_list_witness:
  "\<exists>result.
     get_filtered_quests example_quest_manager False
       = Inr (result, ensure_quests (user_progress example_quest_manager))
     \<and> quest_ids result
         = [JStr ''first_steps'', JStr ''supply_run'', JStr ''lost_signal'', JStr ''scavenger'']
     \<and> sorted_wrt
         (quest_precedes (list_at (user_progress example_quest_manager) (JStr ''quest_order'')))
         result"
proof -
  have w: "wf_quests (user_progress example_quest_manager) (quest_data example_quest_manager)"
    by code_simp
  have ids: "(case get_filtered_quests example_quest_manager False of
        Inr r \<Rightarrow> quest_ids (fst r) | Inl e \<Rightarrow> [])
      = [JStr ''first_steps'', JStr ''supply_run'', JStr ''lost_signal'', JStr ''scavenger'']"
    by code_simp
  from get_filtered_quests_full_list [OF w] obtain result where
    r: "get_filtered_quests example_quest_manager False
          = Inr (result, ensure_quests (user_progress example_quest_manager))"
    and s: "sorted_wrt
         (quest_precedes (list_at (user_progress example_quest_manager) (JStr ''quest_order'')))
         result"
    by blast
  from ids r have "quest_ids result
      = [JStr ''first_steps'', JStr ''supply_run'', JStr ''lost_signal'', JStr ''scavenger'']"
    by simp
  with r s show ?thesis by blast
qed

lemma list_index_append_miss:
  assumes "\<forall>y \<in> set xs. \<not> py_eq y x"
  shows "list_index (xs @ ys) x
     = (case list_index ys x of None \<Rightarrow> None | Some i \<Rightarrow> Some (length xs + i))"
  using assms by (induction xs) (simp_all split: option.splits)

lemma fillers_length: "length (fillers n) = n"
  by (simp add: fillers_def)

lemma fillers_miss:
  "\<forall>y \<in> set (fillers n). \<not> py_eq y (JStr ''late_signal'')"
  "\<forall>y \<in> set (fillers n). \<not> py_eq y (JStr ''unlisted_job'')"
  by (auto simp: fillers_def)

lemma long_order_index:
  "list_index ((fillers 1000) @ [JStr ''late_signal'']) (JStr ''late_signal'') = Some 1000"
  "list_index ((fillers 1000) @ [JStr ''late_signal'']) (JStr ''unlisted_job'') = None"
  by (simp_all add: list_index_append_miss [OF fillers_miss(1)]
      list_index_append_miss [OF fillers_miss(2)] fillers_length)

text \<open>
  Claim C6 at a concrete input: the custom order lists 1001 quests, the last of them
  \<open>late_signal\<close>; \<open>late_signal\<close> and the unlisted \<open>unlisted_job\<close> are tracked and not completed.
  The tracked list puts the unlisted quest, with the sentinel rank 999, before the listed one,
  whose position is 1000.
\<close>

theorem tracked_quests_sentinel_overtaken:
  "(case get_filtered_quests example_long_manager True of
      Inr r \<Rightarrow> quest_ids (fst r) | Inl e \<Rightarrow> [])
     = [JStr ''unlisted_job'', JStr ''late_signal'']
   \<and> py_contains (JStr ''late_signal'') (JList ((fillers 1000) @ [JStr ''late_signal''])) = Inr True
   \<and> py_contains (JStr ''unlisted_job'') (JList ((fillers 1000) @ [JStr ''late_signal''])) = Inr False"
proof -
  have w: "wf_quests (user_progress example_long_manager) (quest_data example_long_manager)"
    by (simp add: wf_quests_def wf_quest_def example_long_manager_def example_long_progress_def
        is_dict_def is_list_def is_bool_def jget_def quest_entry_def localize_name_def)
  have o: "list_at (user_progress example_long_manager) (JStr ''quest_order'')
      = fillers 1000 @ [JStr ''late_signal'']"
    by (simp add: example_long_manager_def example_long_progress_def list_at_def jget_def)
  have v: "map (quest_view (user_progress example_long_manager)) (quest_data example_long_manager)
      = [JObj [(''id'', JStr ''late_signal''), (''objectives'', JList []),
               (''is_completed'', JBool False), (''is_tracked'', JBool True),
               (''objectives_completed'', JList [])],
         JObj [(''id'', JStr ''unlisted_job''), (''objectives'', JList []),
               (''is_completed'', JBool False), (''is_tracked'', JBool True),
               (''objectives_completed'', JList [])]]"
    by (simp add: example_long_manager_def example_long_progress_def quest_view_def
        quest_entry_def jget_def list_at_def localize_name_def)
  have "get_filtered_quests example_long_manager True
      = Inr ([JObj [(''id'', JStr ''unlisted_job''), (''objectives'', JList []),
               (''is_completed'', JBool False), (''is_tracked'', JBool True),
               (''objectives_completed'', JList [])],
              JObj [(''id'', JStr ''late_signal''), (''objectives'', JList []),
               (''is_completed'', JBool False), (''is_tracked'', JBool True),
               (''objectives_completed'', JList [])]],
             ensure_quests (user_progress example_long_manager))"
    unfolding get_filtered_quests_sorted [OF w] o v
    by (simp add: is_tracked_def is_completed_def custom_rank_def jget_def long_order_index)
  moreover have "py_contains (JStr ''late_signal'') (JList ((fillers 1000) @ [JStr ''late_signal''])) = Inr True"
    "py_contains (JStr ''unlisted_job'') (JList ((fillers 1000) @ [JStr ''late_signal''])) = Inr False"
    by (simp_all add: py_contains_def list_ex_list_index long_order_index del: py_eq_JStr)
  ultimately show ?thesis
    by (simp add: quest_ids_def jget_def)
qed


end
